theory Spec2Isabelle
  imports Main "HOL-Library.Word" "HOL-Library.AList"
begin

section \<open>Bytes, strings and errors\<close>

text \<open>
  A Go \<^verbatim>\<open>string\<close> is a sequence of bytes, modelled as \<^typ>\<open>string\<close>; a \<^verbatim>\<open>[]byte\<close> is a list
  of 8-bit words, and a nil slice is \<^term>\<open>None\<close> where the program tests for it.
\<close>

type_synonym byte = "8 word"
type_synonym bytes = "byte list"

definition bytes_of :: "string \<Rightarrow> bytes" where
  \<comment> \<open>the conversion \<^verbatim>\<open>[]byte(s)\<close>\<close>
  "bytes_of s = map of_char s"

definition nl :: string where
  \<comment> \<open>the one-character string written \<^verbatim>\<open>"\n"\<close> in Go\<close>
  "nl = [CHR 0x0A]"

text \<open>\<^verbatim>\<open>type APIError struct { ResultCode, TransactionId string }\<close> (errors file).\<close>

record APIError =
  ae_ResultCode :: string
  ae_TransactionId :: string

text \<open>
  Go's \<^verbatim>\<open>error\<close> interface, restricted to the dynamic types that reach this program:
  \<^verbatim>\<open>errors.New\<close> and \<^verbatim>\<open>fmt.Errorf\<close> without \<^verbatim>\<open>%w\<close> give \<open>ErrorString\<close>; an \<^verbatim>\<open>APIError\<close> value
  is \<open>APIErr\<close>; an error that wraps another one (it has an \<^verbatim>\<open>Unwrap\<close> method) is \<open>Wrapped\<close>;
  \<^verbatim>\<open>context.Canceled\<close> and \<^verbatim>\<open>context.DeadlineExceeded\<close> are the two context errors; \<open>LibError\<close> is
  an error made by a library collaborator (URL parsing, the transport, the JSON codec), with the
  package and the message.
\<close>

datatype error =
    ErrorString string
  | APIErr APIError
  | Wrapped string error
  | Canceled
  | DeadlineExceeded
  | LibError string string

section \<open>Formatting: \<^verbatim>\<open>fmt\<close>, hexadecimal and base64\<close>

definition hexdigit :: "nat \<Rightarrow> char" where
  "hexdigit n = ''0123456789abcdef'' ! (n mod 16)"

definition hex_byte :: "byte \<Rightarrow> string" where
  "hex_byte b = [hexdigit (unat b div 16), hexdigit (unat b mod 16)]"

definition hex_lower :: "bytes \<Rightarrow> string" where
  \<comment> \<open>the verb \<^verbatim>\<open>%x\<close> on a byte slice: two lowercase hexadecimal digits for each byte\<close>
  "hex_lower bs = concat (map hex_byte bs)"

fun decimal_nat :: "nat \<Rightarrow> string" where
  "decimal_nat n =
     (if n < 10 then [hexdigit n] else decimal_nat (n div 10) @ [hexdigit (n mod 10)])"

definition decimal :: "int \<Rightarrow> string" where
  \<comment> \<open>the verb \<^verbatim>\<open>%d\<close> on an \<^verbatim>\<open>int\<close>\<close>
  "decimal i = (if i < 0 then CHR ''-'' # decimal_nat (nat (- i)) else decimal_nat (nat i))"

datatype arg = ArgS string | ArgX bytes | ArgD int

definition format_verb :: "char \<Rightarrow> arg \<Rightarrow> string" where
  \<comment> \<open>the three verb and operand pairs this program uses; any other pair prints Go's bad-verb
      marker, whose operand text is not modelled\<close>
  "format_verb v a =
     (case a of
        ArgS s \<Rightarrow> if v = CHR ''s'' then s else ''%!'' @ [v] @ ''(string)''
      | ArgX bs \<Rightarrow> if v = CHR ''x'' then hex_lower bs else ''%!'' @ [v] @ ''([]uint8)''
      | ArgD i \<Rightarrow> if v = CHR ''d'' then decimal i else ''%!'' @ [v] @ ''(int)'')"

fun Sprintf :: "string \<Rightarrow> arg list \<Rightarrow> string" where
  "Sprintf [] args = []"
| "Sprintf [c] args = (if c = CHR ''%'' then ''%!(NOVERB)'' else [c])"
| "Sprintf (c # v # rest) args =
     (if c = CHR ''%'' then
        (case args of
           [] \<Rightarrow> ''%!'' @ [v] @ ''(MISSING)'' @ Sprintf rest []
         | a # as \<Rightarrow> format_verb v a @ Sprintf rest as)
      else c # Sprintf (v # rest) args)"

text \<open>\<^verbatim>\<open>strings.Join\<close>, used to state what the canonical string is.\<close>

fun Join :: "string list \<Rightarrow> string \<Rightarrow> string" where
  "Join [] sep = []"
| "Join [s] sep = s"
| "Join (s # t # ss) sep = s @ sep @ Join (t # ss) sep"

text \<open>
  \<^verbatim>\<open>base64.StdEncoding.EncodeToString\<close>: the alphabet of RFC 4648, three bytes to four
  characters, the last group padded with \<^verbatim>\<open>=\<close>.
\<close>

definition encodeStd :: string where
  "encodeStd = ''ABCDEFGHIJKLMNOPQRSTUVWXYZabcdefghijklmnopqrstuvwxyz0123456789+/''"

definition b64char :: "nat \<Rightarrow> char" where
  "b64char n = encodeStd ! (n mod 64)"

fun EncodeToString :: "bytes \<Rightarrow> string" where
  "EncodeToString [] = []"
| "EncodeToString [a] =
     [b64char (unat a div 4), b64char (unat a mod 4 * 16), CHR ''='', CHR ''='']"
| "EncodeToString [a, b] =
     [b64char (unat a div 4), b64char (unat a mod 4 * 16 + unat b div 16),
      b64char (unat b mod 16 * 4), CHR ''='']"
| "EncodeToString (a # b # c # rest) =
     [b64char (unat a div 4), b64char (unat a mod 4 * 16 + unat b div 16),
      b64char (unat b mod 16 * 4 + unat c div 64), b64char (unat c mod 64)]
     @ EncodeToString rest"

section \<open>HTTP requests and the collaborators of the client\<close>

text \<open>
  \<^verbatim>\<open>http.Header\<close> maps a key to its values. \<^verbatim>\<open>Set\<close> and \<^verbatim>\<open>Get\<close> first bring the key to its
  canonical MIME form; the keys this program passes (\<^verbatim>\<open>Date\<close>, \<^verbatim>\<open>Content-Type\<close>,
  \<^verbatim>\<open>Authorization\<close>) are in that form already, so the model looks the key up as it is.
\<close>

type_synonym Header = "(string \<times> string list) list"

definition Header_Set :: "Header \<Rightarrow> string \<Rightarrow> string \<Rightarrow> Header" where
  "Header_Set h k v = AList.update k [v] h"

definition Header_Get :: "Header \<Rightarrow> string \<Rightarrow> string" where
  "Header_Get h k = (case map_of h k of None \<Rightarrow> [] | Some [] \<Rightarrow> [] | Some (v # vs) \<Rightarrow> v)"

record URL =
  Scheme :: string
  Host :: string
  Path :: string
  RawQuery :: string

record Request =
  Method :: string
  URL :: URL
  Header :: Header
  Body :: "bytes option"

record Response =
  StatusCode :: int
  resp_Body :: bytes

type_synonym transport = "Request \<Rightarrow> error + Response"

section \<open>Request and response structures\<close>

text \<open>
  A \<^verbatim>\<open>float64\<close> is carried as its IEEE 754 bit pattern; the client never computes with it.
  A pointer field (\<^verbatim>\<open>*string\<close>, \<^verbatim>\<open>*bool\<close>, \<^verbatim>\<open>*float64\<close>) is an option, nil being \<^term>\<open>None\<close>.
  Field names carry a prefix of their structure, since the structures share field names.
\<close>

type_synonym float64 = "64 word"

record PostTargetRequest =
  post_Name :: string
  post_Width :: float64
  post_Image :: string
  post_Active :: "bool option"
  post_Metadata :: "string option"

record PostTargetResponse =
  postr_TargetId :: string
  postr_TransactionId :: string
  postr_ResultCode :: string

record GetTargetRequest =
  get_TargetId :: string

record TargetRecord =
  rec_TargetId :: string
  rec_Active :: bool
  rec_Name :: string
  rec_Width :: float64
  rec_TrackingRating :: int

record GetTargetResponse =
  getr_TransactionId :: string
  getr_ResultCode :: string
  getr_Status :: string
  getr_TargetRecord :: TargetRecord

record UpdateTargetRequest =
  upd_TargetId :: string
  upd_Name :: "string option"
  upd_Width :: "float64 option"
  upd_Image :: "string option"
  upd_Active :: "bool option"
  upd_Metadata :: "string option"

record UpdateTargetResponse =
  updr_TransactionId :: string
  updr_ResultCode :: string

record DeleteTargetRequest =
  del_TargetId :: string

record DeleteTargetResponse =
  delr_TransactionId :: string
  delr_ResultCode :: string

record TargetSummaryRequest =
  sum_TargetId :: string

record TargetSummaryResponse =
  sumr_TransactionId :: string
  sumr_ResultCode :: string
  sumr_Status :: string
  sumr_DatabaseName :: string
  sumr_TargetName :: string
  sumr_UploadDate :: string
  sumr_Active :: bool
  sumr_TrackingRating :: int
  sumr_TotalRecos :: int
  sumr_CurrentMonthRecos :: int
  sumr_PreviousMonthRecos :: int

record DatabaseSummaryResponse =
  dbr_TransactionId :: string
  dbr_ResultCode :: string
  dbr_Name :: string
  dbr_ActiveImages :: int
  dbr_InactiveImages :: int
  dbr_FailedImages :: int

text \<open>
  \<^verbatim>\<open>json.Marshal\<close> of a request structure is modelled in two steps: the structure's tags decide
  which members the JSON object has, in the order of the fields (below, from the source); the
  text of that object is written by the library (a collaborator, in \<open>platform\<close>).
\<close>

datatype jvalue = JString string | JNumber float64 | JBool bool

type_synonym members = "(string \<times> jvalue) list"

definition omitempty :: "string \<Rightarrow> ('a \<Rightarrow> jvalue) \<Rightarrow> 'a option \<Rightarrow> members" where
  \<comment> \<open>a pointer field tagged \<^verbatim>\<open>omitempty\<close>: no member at all when the pointer is nil\<close>
  "omitempty key f p = (case p of None \<Rightarrow> [] | Some v \<Rightarrow> [(key, f v)])"

definition members_PostTargetRequest :: "PostTargetRequest \<Rightarrow> members" where
  "members_PostTargetRequest input =
     [(''name'', JString (post_Name input)),
      (''width'', JNumber (post_Width input)),
      (''image'', JString (post_Image input))]
     @ omitempty ''active_flag'' JBool (post_Active input)
     @ omitempty ''application_metadata'' JString (post_Metadata input)"

definition members_UpdateTargetRequest :: "UpdateTargetRequest \<Rightarrow> members" where
  \<comment> \<open>\<^verbatim>\<open>TargetId\<close> is tagged \<^verbatim>\<open>json:"-"\<close>: never a member\<close>
  "members_UpdateTargetRequest input =
     omitempty ''name'' JString (upd_Name input)
     @ omitempty ''width'' JNumber (upd_Width input)
     @ omitempty ''image'' JString (upd_Image input)
     @ omitempty ''active_flag'' JBool (upd_Active input)
     @ omitempty ''application_metadata'' JString (upd_Metadata input)"

definition float_finite :: "float64 \<Rightarrow> bool" where
  \<comment> \<open>neither an infinity nor a NaN: the exponent bits are not all ones\<close>
  "float_finite w = (take_bit 11 (drop_bit 52 w) \<noteq> (2047 :: 64 word))"

fun unsupported :: "jvalue \<Rightarrow> bool" where
  "unsupported (JNumber w) = (\<not> float_finite w)"
| "unsupported (JString s) = False"
| "unsupported (JBool b) = False"

text \<open>
  What the client takes from outside the repository: the clock (already formatted by
  \<^verbatim>\<open>time.Now().UTC().Format("Mon, 02 Jan 2006 15:04:05 GMT")\<close>), the two digests, URL parsing
  inside \<^verbatim>\<open>http.NewRequest\<close>, the text of a JSON object, the decoding of a response body into
  each response structure, and the process-wide \<^verbatim>\<open>http.DefaultClient\<close>.
\<close>

record platform =
  time_Now :: string
  md5_Sum :: "bytes \<Rightarrow> bytes"
  hmac_sha1 :: "bytes \<Rightarrow> bytes \<Rightarrow> bytes"
  url_Parse :: "string \<Rightarrow> error + URL"
  json_Encode :: "members \<Rightarrow> bytes"
  Decode_APIError :: "bytes \<Rightarrow> error + APIError"
  Decode_PostTargetResponse :: "bytes \<Rightarrow> error + PostTargetResponse"
  Decode_GetTargetResponse :: "bytes \<Rightarrow> error + GetTargetResponse"
  Decode_UpdateTargetResponse :: "bytes \<Rightarrow> error + UpdateTargetResponse"
  Decode_DeleteTargetResponse :: "bytes \<Rightarrow> error + DeleteTargetResponse"
  Decode_TargetSummaryResponse :: "bytes \<Rightarrow> error + TargetSummaryResponse"
  Decode_DatabaseSummaryResponse :: "bytes \<Rightarrow> error + DatabaseSummaryResponse"
  DefaultClient :: transport

definition json_Marshal :: "platform \<Rightarrow> members \<Rightarrow> error + bytes" where
  \<comment> \<open>\<^verbatim>\<open>json.Marshal\<close> fails on a floating-point value that JSON cannot write\<close>
  "json_Marshal P ms =
     (if list_ex unsupported (map snd ms)
      then Inl (LibError ''json'' ''unsupported value'')
      else Inr (json_Encode P ms))"

definition NewRequest :: "platform \<Rightarrow> string \<Rightarrow> string \<Rightarrow> bytes option \<Rightarrow> error + Request" where
  \<comment> \<open>\<^verbatim>\<open>http.NewRequest\<close>: the methods this program passes are valid, so it fails only when the
      URL does not parse; the new request has an empty header\<close>
  "NewRequest P method url body =
     (case url_Parse P url of
        Inl err \<Rightarrow> Inl err
      | Inr u \<Rightarrow> Inr \<lparr>Method = method, URL = u, Header = [], Body = body\<rparr>)"

text \<open>
  A \<^verbatim>\<open>hash.Hash\<close> is modelled by the bytes written to it so far; \<^verbatim>\<open>Sum(nil)\<close> is the digest of
  those bytes. \<^verbatim>\<open>Write\<close> on a hash never returns an error (package \<^verbatim>\<open>hash\<close>), and so neither does
  \<^verbatim>\<open>fmt.Fprintf\<close> into one.
\<close>

type_synonym hash_state = bytes

definition hash_New :: hash_state where
  "hash_New = []"

definition hash_Write :: "hash_state \<Rightarrow> bytes \<Rightarrow> hash_state \<times> error option" where
  "hash_Write h p = (h @ p, None)"

definition Fprintf :: "hash_state \<Rightarrow> string \<Rightarrow> arg list \<Rightarrow> hash_state \<times> error option" where
  "Fprintf h f args = hash_Write h (bytes_of (Sprintf f args))"

section \<open>The request signer\<close>

definition sign_format :: string where
  \<comment> \<open>the format string \<^verbatim>\<open>"%s\n%x\n%s\n%s\n%s"\<close>\<close>
  "sign_format = ''%s'' @ nl @ ''%x'' @ nl @ ''%s'' @ nl @ ''%s'' @ nl @ ''%s''"

definition sign :: "platform \<Rightarrow> string \<Rightarrow> Request \<Rightarrow> bytes option \<Rightarrow> error + string" where
  "sign P secretKey r body =
     (case (case body of None \<Rightarrow> (hash_New, None) | Some b \<Rightarrow> hash_Write hash_New b) of
        (md5Hash, Some err) \<Rightarrow> Inl err
      | (md5Hash, None) \<Rightarrow>
          (case Fprintf hash_New sign_format
                  [ArgS (Method r),
                   ArgX (md5_Sum P md5Hash),
                   ArgS (Header_Get (Header r) ''Content-Type''),
                   ArgS (Header_Get (Header r) ''Date''),
                   ArgS (Path (URL r))] of
             (mac, Some err) \<Rightarrow> Inl err
           | (mac, None) \<Rightarrow> Inr (EncodeToString (hmac_sha1 P (bytes_of secretKey) mac))))"

text \<open>
  \<^verbatim>\<open>prepare\<close> mutates the request it is given; the model returns the request as it is when
  \<^verbatim>\<open>prepare\<close> returns, with the error (\<^term>\<open>None\<close> for nil).
\<close>

definition prepare ::
  "platform \<Rightarrow> string \<Rightarrow> string \<Rightarrow> Request \<Rightarrow> bytes option \<Rightarrow> Request \<times> error option" where
  "prepare P secretKey accessKey req body =
     (let req1 = req\<lparr>Header := Header_Set (Header req) ''Date'' (time_Now P)\<rparr>;
          req2 = req1\<lparr>Header := Header_Set (Header req1) ''Content-Type'' ''application/json''\<rparr>
      in case sign P secretKey req2 body of
           Inl err \<Rightarrow> (req2, Some err)
         | Inr signature \<Rightarrow>
             (req2\<lparr>Header := Header_Set (Header req2) ''Authorization''
                       (Sprintf ''VWS %s:%s'' [ArgS accessKey, ArgS signature])\<rparr>, None))"

section \<open>Error classification\<close>

definition isServerError :: "int \<Rightarrow> bool" where
  "isServerError status = (status \<ge> 500)"

definition isAPIError :: "int \<Rightarrow> bool" where
  "isAPIError status = (status \<ge> 400 \<and> status < 500)"

definition checkError :: "platform \<Rightarrow> Response \<Rightarrow> error option" where
  "checkError P resp =
     (if isServerError (StatusCode resp) then
        Some (ErrorString (Sprintf
          ''the server encountered an internal error (Status = %d); please retry the request''
          [ArgD (StatusCode resp)]))
      else if isAPIError (StatusCode resp) then
        (case Decode_APIError P (resp_Body resp) of
           Inl err \<Rightarrow> Some err
         | Inr e \<Rightarrow> Some (APIErr e))
      else None)"

section \<open>The client and its operations\<close>

definition vuforiaUrl :: string where
  "vuforiaUrl = ''vws.vuforia.com''"

record ClientConfig =
  SecretKey :: string
  AccessKey :: string
  Client :: "transport option"

record client =
  cfg :: ClientConfig

definition NewClient :: "platform \<Rightarrow> ClientConfig \<Rightarrow> error + client" where
  "NewClient P c =
     (if SecretKey c = [] then Inl (ErrorString ''vuforia SecretKey must be set'')
      else if AccessKey c = [] then Inl (ErrorString ''vuforia AccessKey must be set'')
      else Inr \<lparr>cfg = (if Client c = None then c\<lparr>Client := Some (DefaultClient P)\<rparr> else c)\<rparr>)"

text \<open>
  An operation returns \<^verbatim>\<open>(nil, err)\<close> (\<open>Fails\<close>) or \<^verbatim>\<open>(&v, nil)\<close> (\<open>Gives\<close>), or it panics.
  Beside its result the model gives the HTTP exchanges the operation started, in order: which
  \<^verbatim>\<open>*http.Client\<close> expression the source calls \<^verbatim>\<open>Do\<close> on, and the request handed to it.
  \<^verbatim>\<open>safeClose\<close> drains and closes the response body; it changes no result.
\<close>

datatype 'a result = Panics string | Fails error | Gives 'a

datatype via = http_DefaultClient | cfg_Client

type_synonym calls = "(via \<times> Request) list"

definition nil_input :: string where
  "nil_input = ''input is <nil>''"

definition nil_dereference :: string where
  "nil_dereference = ''runtime error: invalid memory address or nil pointer dereference''"

definition PostTarget ::
  "platform \<Rightarrow> client \<Rightarrow> PostTargetRequest option \<Rightarrow> PostTargetResponse result \<times> calls" where
  "PostTarget P c input =
     (case input of
        None \<Rightarrow> (Panics nil_input, [])
      | Some inp \<Rightarrow>
          (case json_Marshal P (members_PostTargetRequest inp) of
             Inl err \<Rightarrow> (Fails err, [])
           | Inr body \<Rightarrow>
               (case NewRequest P ''POST'' (Sprintf ''https://%s/targets'' [ArgS vuforiaUrl])
                       (Some body) of
                  Inl err \<Rightarrow> (Fails err, [])
                | Inr req0 \<Rightarrow>
                    (case prepare P (SecretKey (cfg c)) (AccessKey (cfg c)) req0 (Some body) of
                       (req, Some err) \<Rightarrow> (Fails err, [])
                     | (req, None) \<Rightarrow>
                         (case DefaultClient P req of
                            Inl err \<Rightarrow> (Fails err, [(http_DefaultClient, req)])
                          | Inr resp \<Rightarrow>
                              (case Decode_PostTargetResponse P (resp_Body resp) of
                                 Inl err \<Rightarrow> (Fails err, [(http_DefaultClient, req)])
                               | Inr v \<Rightarrow> (Gives v, [(http_DefaultClient, req)])))))))"

definition GetTarget ::
  "platform \<Rightarrow> client \<Rightarrow> GetTargetRequest option \<Rightarrow> GetTargetResponse result \<times> calls" where
  "GetTarget P c input =
     (case input of
        None \<Rightarrow> (Panics nil_input, [])
      | Some inp \<Rightarrow>
          if get_TargetId inp = [] then (Fails (ErrorString ''TargetId must be provided''), [])
          else
            (case NewRequest P ''GET''
                    (Sprintf ''https://%s/targets/%s'' [ArgS vuforiaUrl, ArgS (get_TargetId inp)])
                    None of
               Inl err \<Rightarrow> (Fails err, [])
             | Inr req0 \<Rightarrow>
                 (case prepare P (SecretKey (cfg c)) (AccessKey (cfg c)) req0 None of
                    (req, Some err) \<Rightarrow> (Fails err, [])
                  | (req, None) \<Rightarrow>
                      (case Client (cfg c) of
                         None \<Rightarrow> (Panics nil_dereference, [])
                       | Some httpClient \<Rightarrow>
                           (case httpClient req of
                              Inl err \<Rightarrow> (Fails err, [(cfg_Client, req)])
                            | Inr resp \<Rightarrow>
                                (case Decode_GetTargetResponse P (resp_Body resp) of
                                   Inl err \<Rightarrow> (Fails err, [(cfg_Client, req)])
                                 | Inr v \<Rightarrow> (Gives v, [(cfg_Client, req)])))))))"

definition UpdateTarget ::
  "platform \<Rightarrow> client \<Rightarrow> UpdateTargetRequest option \<Rightarrow> UpdateTargetResponse result \<times> calls" where
  "UpdateTarget P c input =
     (case input of
        None \<Rightarrow> (Panics nil_input, [])
      | Some inp \<Rightarrow>
          if upd_TargetId inp = [] then (Fails (ErrorString ''TargetId must be provided''), [])
          else
            (case json_Marshal P (members_UpdateTargetRequest inp) of
               Inl err \<Rightarrow> (Fails err, [])
             | Inr body \<Rightarrow>
                 (case NewRequest P ''PUT''
                         (Sprintf ''https://%s/targets/%s''
                            [ArgS vuforiaUrl, ArgS (upd_TargetId inp)])
                         (Some body) of
                    Inl err \<Rightarrow> (Fails err, [])
                  | Inr req0 \<Rightarrow>
                      (case prepare P (SecretKey (cfg c)) (AccessKey (cfg c)) req0 (Some body) of
                         (req, Some err) \<Rightarrow> (Fails err, [])
                       | (req, None) \<Rightarrow>
                           (case DefaultClient P req of
                              Inl err \<Rightarrow> (Fails err, [(http_DefaultClient, req)])
                            | Inr resp \<Rightarrow>
                                (case Decode_UpdateTargetResponse P (resp_Body resp) of
                                   Inl err \<Rightarrow> (Fails err, [(http_DefaultClient, req)])
                                 | Inr v \<Rightarrow> (Gives v, [(http_DefaultClient, req)])))))))"

definition DeleteTarget ::
  "platform \<Rightarrow> client \<Rightarrow> DeleteTargetRequest option \<Rightarrow> DeleteTargetResponse result \<times> calls" where
  "DeleteTarget P c input =
     (case input of
        None \<Rightarrow> (Panics nil_input, [])
      | Some inp \<Rightarrow>
          if del_TargetId inp = [] then (Fails (ErrorString ''TargetId must be provided''), [])
          else
            (case NewRequest P ''DELETE''
                    (Sprintf ''https://%s/targets/%s'' [ArgS vuforiaUrl, ArgS (del_TargetId inp)])
                    None of
               Inl err \<Rightarrow> (Fails err, [])
             | Inr req0 \<Rightarrow>
                 (case prepare P (SecretKey (cfg c)) (AccessKey (cfg c)) req0 None of
                    (req, Some err) \<Rightarrow> (Fails err, [])
                  | (req, None) \<Rightarrow>
                      (case Client (cfg c) of
                         None \<Rightarrow> (Panics nil_dereference, [])
                       | Some httpClient \<Rightarrow>
                           (case httpClient req of
                              Inl err \<Rightarrow> (Fails err, [(cfg_Client, req)])
                            | Inr resp \<Rightarrow>
                                (case Decode_DeleteTargetResponse P (resp_Body resp) of
                                   Inl err \<Rightarrow> (Fails err, [(cfg_Client, req)])
                                 | Inr v \<Rightarrow> (Gives v, [(cfg_Client, req)])))))))"

definition TargetSummary ::
  "platform \<Rightarrow> client \<Rightarrow> TargetSummaryRequest option \<Rightarrow> TargetSummaryResponse result \<times> calls" where
  "TargetSummary P c input =
     (case input of
        None \<Rightarrow> (Panics nil_input, [])
      | Some inp \<Rightarrow>
          if sum_TargetId inp = [] then (Fails (ErrorString ''TargetId must be provided''), [])
          else
            (case NewRequest P ''GET''
                    (Sprintf ''https://%s/summary/%s'' [ArgS vuforiaUrl, ArgS (sum_TargetId inp)])
                    None of
               Inl err \<Rightarrow> (Fails err, [])
             | Inr req0 \<Rightarrow>
                 (case prepare P (SecretKey (cfg c)) (AccessKey (cfg c)) req0 None of
                    (req, Some err) \<Rightarrow> (Fails err, [])
                  | (req, None) \<Rightarrow>
                      (case Client (cfg c) of
                         None \<Rightarrow> (Panics nil_dereference, [])
                       | Some httpClient \<Rightarrow>
                           (case httpClient req of
                              Inl err \<Rightarrow> (Fails err, [(cfg_Client, req)])
                            | Inr resp \<Rightarrow>
                                (case Decode_TargetSummaryResponse P (resp_Body resp) of
                                   Inl err \<Rightarrow> (Fails err, [(cfg_Client, req)])
                                 | Inr v \<Rightarrow> (Gives v, [(cfg_Client, req)])))))))"

definition DatabaseSummary ::
  "platform \<Rightarrow> client \<Rightarrow> DatabaseSummaryResponse result \<times> calls" where
  "DatabaseSummary P c =
     (case NewRequest P ''GET'' (Sprintf ''https://%s/summary'' [ArgS vuforiaUrl]) None of
        Inl err \<Rightarrow> (Fails err, [])
      | Inr req0 \<Rightarrow>
          (case prepare P (SecretKey (cfg c)) (AccessKey (cfg c)) req0 None of
             (req, Some err) \<Rightarrow> (Fails err, [])
           | (req, None) \<Rightarrow>
               (case Client (cfg c) of
                  None \<Rightarrow> (Panics nil_dereference, [])
                | Some httpClient \<Rightarrow>
                    (case httpClient req of
                       Inl err \<Rightarrow> (Fails err, [(cfg_Client, req)])
                     | Inr resp \<Rightarrow>
                         (case Decode_DatabaseSummaryResponse P (resp_Body resp) of
                            Inl err \<Rightarrow> (Fails err, [(cfg_Client, req)])
                          | Inr v \<Rightarrow> (Gives v, [(cfg_Client, req)]))))))"

section \<open>The processing waiter\<close>

text \<open>
  \<^verbatim>\<open>strings.ToLower\<close> and \<^verbatim>\<open>strings.EqualFold\<close> are library functions on Unicode text
  (\<^verbatim>\<open>ToLower\<close> lowers every letter that has a lower-case form, \<^verbatim>\<open>EqualFold\<close> compares under
  Unicode simple case folding). Like the digests of the signer they are taken from outside:
  the waiter is given the two functions.
\<close>

record strings_pkg =
  strings_ToLower :: "string \<Rightarrow> string"
  strings_EqualFold :: "string \<Rightarrow> string \<Rightarrow> bool"

text \<open>
  \<^verbatim>\<open>errors.As(err, &ae)\<close> with \<^verbatim>\<open>ae\<close> of type \<^verbatim>\<open>APIError\<close>: the first error of that type on the
  chain of \<^verbatim>\<open>Unwrap\<close>, if there is one.
\<close>

fun errors_As :: "error \<Rightarrow> APIError option" where
  "errors_As (APIErr ae) = Some ae"
| "errors_As (Wrapped msg err) = errors_As err"
| "errors_As (ErrorString msg) = None"
| "errors_As Canceled = None"
| "errors_As DeadlineExceeded = None"
| "errors_As (LibError pkg msg) = None"

text \<open>
  Time is counted in nanoseconds, as \<^verbatim>\<open>time.Duration\<close> does. A context is the instant at which
  its \<^verbatim>\<open>Done\<close> channel is closed (\<^term>\<open>None\<close>: never) and the error \<^verbatim>\<open>Err\<close> returns from then
  on. The \<^verbatim>\<open>select\<close> of the loop blocks on \<^verbatim>\<open>ctx.Done()\<close> and on a fresh timer: the channel
  that is ready first is taken; when both become ready at the same instant Go takes either, and
  \<open>timer_wins_tie\<close> says which.
\<close>

definition Second :: nat where
  "Second = 1000000000"

record Context =
  done_at :: "nat option"
  ctx_Err :: error
  timer_wins_tie :: bool

definition done_first :: "Context \<Rightarrow> nat \<Rightarrow> nat \<Rightarrow> bool" where
  \<comment> \<open>entering the \<^verbatim>\<open>select\<close> at \<open>now\<close> with a timer of \<open>interval\<close>: is \<^verbatim>\<open>ctx.Done()\<close> taken?\<close>
  "done_first ctx now interval =
     (case done_at ctx of
        None \<Rightarrow> False
      | Some d \<Rightarrow> d < now + interval \<or> (d = now + interval \<and> \<not> timer_wins_tie ctx))"

text \<open>
  The \<^verbatim>\<open>Client\<close> handed to the waiter is an interface value: what its \<^verbatim>\<open>GetTarget\<close> returns is
  given by a script, one entry for each call in order, with the time the call takes. A poll is
  the instant of a call, the interval slept just before it and the target asked for. When the
  script ends while the loop is still going the outcome is \<open>Pending\<close>.
\<close>

record reply =
  latency :: nat
  reply_output :: "GetTargetResponse option"
  reply_err :: "error option"

record poll =
  at :: nat
  waited :: nat
  asked :: GetTargetRequest

datatype outcome = Returned "error option" | Panicked string | Pending

definition defaultInterval :: nat where
  "defaultInterval = 5 * Second"

definition extendedInterval :: nat where
  "extendedInterval = 30 * Second"

definition and_then :: "poll \<Rightarrow> outcome \<times> poll list \<Rightarrow> outcome \<times> poll list" where
  \<comment> \<open>\<^verbatim>\<open>continue\<close>: the rest of the run follows the poll just made\<close>
  "and_then p run = (fst run, p # snd run)"

fun wait_loop ::
  "strings_pkg \<Rightarrow> Context \<Rightarrow> string \<Rightarrow> nat \<Rightarrow> nat \<Rightarrow> reply list \<Rightarrow> outcome \<times> poll list"
  where
  "wait_loop S ctx target interval now [] =
     (if done_first ctx now interval then (Returned (Some (ctx_Err ctx)), [])
      else (Pending, []))"
| "wait_loop S ctx target interval now (r # script) =
     (if done_first ctx now interval then (Returned (Some (ctx_Err ctx)), [])
      else
        let p = \<lparr>at = now + interval, waited = interval, asked = \<lparr>get_TargetId = target\<rparr>\<rparr>;
            interval1 = defaultInterval;
            now1 = now + interval + latency r
        in case reply_err r of
             Some err \<Rightarrow>
               (case errors_As err of
                  Some ae \<Rightarrow>
                    if strings_EqualFold S (ae_ResultCode ae) ''RequestQuotaReached''
                    then and_then p (wait_loop S ctx target extendedInterval now1 script)
                    else (Returned (Some err), [p])
                | None \<Rightarrow> (Returned (Some err), [p]))
           | None \<Rightarrow>
               (case reply_output r of
                  None \<Rightarrow> (Panicked nil_dereference, [p])
                | Some out \<Rightarrow>
                    (let status = strings_ToLower S (getr_Status out) in
                     if status = ''failed'' \<or> status = ''success'' then (Returned None, [p])
                     else if status = ''processing''
                     then and_then p (wait_loop S ctx target interval1 now1 script)
                     else and_then p (wait_loop S ctx target interval1 now1 script))))"

definition WaitUntilProcessed ::
  "strings_pkg \<Rightarrow> Context \<Rightarrow> nat \<Rightarrow> reply list \<Rightarrow> string \<Rightarrow> outcome \<times> poll list" where
  \<comment> \<open>entered at the instant \<open>entry\<close>, with the client's replies \<open>script\<close>\<close>
  "WaitUntilProcessed S ctx entry script target =
     wait_loop S ctx target defaultInterval entry script"

section \<open>Concrete inputs\<close>

text \<open>Small inputs on which the properties below are run.\<close>

definition ascii_lower :: "char \<Rightarrow> char" where
  "ascii_lower c =
     (case map_of (zip ''ABCDEFGHIJKLMNOPQRSTUVWXYZ'' ''abcdefghijklmnopqrstuvwxyz'') c of
        None \<Rightarrow> c
      | Some l \<Rightarrow> l)"

definition ascii_strings :: strings_pkg where
  \<comment> \<open>a stand-in for the two library functions that folds the letters \<^verbatim>\<open>A\<close> to \<^verbatim>\<open>Z\<close> only: on
      ASCII text it computes what they compute. The concrete runs below, all on ASCII text, use
      it; no general property does.\<close>
  "ascii_strings =
     \<lparr>strings_ToLower = map ascii_lower,
      strings_EqualFold = (\<lambda>s t. map ascii_lower s = map ascii_lower t)\<rparr>"

definition a_response :: "string \<Rightarrow> GetTargetResponse" where
  "a_response status =
     \<lparr>getr_TransactionId = ''tx'', getr_ResultCode = ''Success'', getr_Status = status,
      getr_TargetRecord =
        \<lparr>rec_TargetId = ''t1'', rec_Active = True, rec_Name = ''poster'', rec_Width = 0,
         rec_TrackingRating = - 1\<rparr>\<rparr>"

definition replies :: "nat \<Rightarrow> string \<Rightarrow> reply" where
  \<comment> \<open>a call that takes \<open>l\<close> nanoseconds and succeeds with the given status\<close>
  "replies l status = \<lparr>latency = l, reply_output = Some (a_response status), reply_err = None\<rparr>"

definition fails_with :: "nat \<Rightarrow> error \<Rightarrow> reply" where
  "fails_with l err = \<lparr>latency = l, reply_output = None, reply_err = Some err\<rparr>"

definition background :: Context where
  \<comment> \<open>\<^verbatim>\<open>context.Background()\<close>: never done\<close>
  "background = \<lparr>done_at = None, ctx_Err = Canceled, timer_wins_tie = True\<rparr>"

definition cancelled_at :: "nat \<Rightarrow> Context" where
  "cancelled_at d = \<lparr>done_at = Some d, ctx_Err = Canceled, timer_wins_tie = True\<rparr>"

definition asking :: "nat \<Rightarrow> nat \<Rightarrow> poll" where
  \<comment> \<open>a poll for the target \<^verbatim>\<open>t1\<close>\<close>
  "asking a w = \<lparr>at = a, waited = w, asked = \<lparr>get_TargetId = ''t1''\<rparr>\<rparr>"

definition with_status :: "(int \<Rightarrow> int) \<Rightarrow> transport \<Rightarrow> transport" where
  \<comment> \<open>the transport \<open>t\<close> with the status code of every response replaced\<close>
  "with_status g t =
     (\<lambda>req. case t req of
              Inl err \<Rightarrow> Inl err
            | Inr resp \<Rightarrow> Inr (resp\<lparr>StatusCode := g (StatusCode resp)\<rparr>))"

definition unknown_target_body :: bytes where
  \<open>unknown_target_body = bytes_of ''{"result_code":"UnknownTarget","transaction_id":"tx"}''\<close>

definition success_body :: bytes where
  \<open>success_body = bytes_of ''{"result_code":"Success","transaction_id":"tx"}''\<close>

definition unavailable_body :: bytes where
  "unavailable_body = bytes_of ''Service Unavailable''"

definition syntax_error :: error where
  "syntax_error = LibError ''json'' ''invalid character''"

definition unknown_target_response :: GetTargetResponse where
  \<comment> \<open>what \<open>unknown_target_body\<close> decodes to: the members it lacks stay zero\<close>
  "unknown_target_response =
     \<lparr>getr_TransactionId = ''tx'', getr_ResultCode = ''UnknownTarget'', getr_Status = [],
      getr_TargetRecord =
        \<lparr>rec_TargetId = [], rec_Active = False, rec_Name = [], rec_Width = 0,
         rec_TrackingRating = 0\<rparr>\<rparr>"

definition envelope_of :: "bytes \<Rightarrow> (string \<times> string) option" where
  \<comment> \<open>the result code and the transaction id of the two JSON bodies above; any other body
      is taken not to be JSON\<close>
  "envelope_of b =
     (if b = success_body then Some (''Success'', ''tx'')
      else if b = unknown_target_body then Some (''UnknownTarget'', ''tx'')
      else None)"

definition toy_platform :: platform where
  \<comment> \<open>stand-ins for the library: digests that only count bytes, a URL parser that cuts the
      path after the 23 characters of \<^verbatim>\<open>https://vws.vuforia.com\<close>, a JSON writer that lists the
      keys, decoders that know the two bodies above (the members a body lacks stay zero), and
      a default client that answers 200\<close>
  "toy_platform =
     \<lparr>time_Now = ''Sun, 01 Nov 2026 12:00:00 GMT'',
      md5_Sum = (\<lambda>b. [of_nat (length b)]),
      hmac_sha1 = (\<lambda>k m. [of_nat (length k), of_nat (length m)]),
      url_Parse = (\<lambda>s. Inr \<lparr>Scheme = ''https'', Host = vuforiaUrl, Path = drop 23 s,
                             RawQuery = []\<rparr>),
      json_Encode = (\<lambda>ms. bytes_of (Join (map fst ms) '','')),
      Decode_APIError = (\<lambda>b. case envelope_of b of
           None \<Rightarrow> Inl syntax_error
         | Some (code, tx) \<Rightarrow> Inr \<lparr>ae_ResultCode = code, ae_TransactionId = tx\<rparr>),
      Decode_PostTargetResponse = (\<lambda>b. case envelope_of b of
           None \<Rightarrow> Inl syntax_error
         | Some (code, tx) \<Rightarrow>
             Inr \<lparr>postr_TargetId = [], postr_TransactionId = tx, postr_ResultCode = code\<rparr>),
      Decode_GetTargetResponse = (\<lambda>b. case envelope_of b of
           None \<Rightarrow> Inl syntax_error
         | Some (code, tx) \<Rightarrow>
             Inr \<lparr>getr_TransactionId = tx, getr_ResultCode = code, getr_Status = [],
                  getr_TargetRecord =
                    \<lparr>rec_TargetId = [], rec_Active = False, rec_Name = [], rec_Width = 0,
                     rec_TrackingRating = 0\<rparr>\<rparr>),
      Decode_UpdateTargetResponse = (\<lambda>b. case envelope_of b of
           None \<Rightarrow> Inl syntax_error
         | Some (code, tx) \<Rightarrow> Inr \<lparr>updr_TransactionId = tx, updr_ResultCode = code\<rparr>),
      Decode_DeleteTargetResponse = (\<lambda>b. case envelope_of b of
           None \<Rightarrow> Inl syntax_error
         | Some (code, tx) \<Rightarrow> Inr \<lparr>delr_TransactionId = tx, delr_ResultCode = code\<rparr>),
      Decode_TargetSummaryResponse = (\<lambda>b. case envelope_of b of
           None \<Rightarrow> Inl syntax_error
         | Some (code, tx) \<Rightarrow>
             Inr \<lparr>sumr_TransactionId = tx, sumr_ResultCode = code, sumr_Status = [],
                  sumr_DatabaseName = [], sumr_TargetName = [], sumr_UploadDate = [],
                  sumr_Active = False, sumr_TrackingRating = 0, sumr_TotalRecos = 0,
                  sumr_CurrentMonthRecos = 0, sumr_PreviousMonthRecos = 0\<rparr>),
      Decode_DatabaseSummaryResponse = (\<lambda>b. case envelope_of b of
           None \<Rightarrow> Inl syntax_error
         | Some (code, tx) \<Rightarrow>
             Inr \<lparr>dbr_TransactionId = tx, dbr_ResultCode = code, dbr_Name = [],
                  dbr_ActiveImages = 0, dbr_InactiveImages = 0, dbr_FailedImages = 0\<rparr>),
      DefaultClient = (\<lambda>req. Inr \<lparr>StatusCode = 200, resp_Body = success_body\<rparr>)\<rparr>"

definition unknown_summary :: TargetSummaryResponse where
  "unknown_summary =
     \<lparr>sumr_TransactionId = ''tx'', sumr_ResultCode = ''UnknownTarget'', sumr_Status = [],
      sumr_DatabaseName = [], sumr_TargetName = [], sumr_UploadDate = [],
      sumr_Active = False, sumr_TrackingRating = 0, sumr_TotalRecos = 0,
      sumr_CurrentMonthRecos = 0, sumr_PreviousMonthRecos = 0\<rparr>"

definition unknown_database :: DatabaseSummaryResponse where
  "unknown_database =
     \<lparr>dbr_TransactionId = ''tx'', dbr_ResultCode = ''UnknownTarget'', dbr_Name = [],
      dbr_ActiveImages = 0, dbr_InactiveImages = 0, dbr_FailedImages = 0\<rparr>"

definition signed_request ::
  "platform \<Rightarrow> client \<Rightarrow> string \<Rightarrow> URL \<Rightarrow> bytes option \<Rightarrow> Request" where
  \<comment> \<open>the request an operation hands to its transport: the new request for the method, the
      parsed URL and the body, after \<open>prepare\<close> has set its three headers\<close>
  "signed_request P c method u body =
     fst (prepare P (SecretKey (cfg c)) (AccessKey (cfg c))
            \<lparr>Method = method, URL = u, Header = [], Body = body\<rparr> body)"

definition not_found :: transport where
  "not_found = (\<lambda>req. Inr \<lparr>StatusCode = 404, resp_Body = unknown_target_body\<rparr>)"

definition unavailable :: transport where
  "unavailable = (\<lambda>req. Inr \<lparr>StatusCode = 503, resp_Body = unavailable_body\<rparr>)"

definition client_over :: "transport \<Rightarrow> client" where
  "client_over t = \<lparr>cfg = \<lparr>SecretKey = ''secret'', AccessKey = ''access'', Client = Some t\<rparr>\<rparr>"

definition only_name :: "string \<Rightarrow> string \<Rightarrow> UpdateTargetRequest" where
  \<comment> \<open>an update request in which only \<^verbatim>\<open>Name\<close> is set\<close>
  "only_name tid name =
     \<lparr>upd_TargetId = tid, upd_Name = Some name, upd_Width = None, upd_Image = None,
      upd_Active = None, upd_Metadata = None\<rparr>"

definition a_poster :: PostTargetRequest where
  \<comment> \<open>a new target of width 2.0\<close>
  "a_poster =
     \<lparr>post_Name = ''poster'', post_Width = 0x4000000000000000, post_Image = ''aGk='',
      post_Active = Some True, post_Metadata = None\<rparr>"

section \<open>Properties of the request signer\<close>

lemma EncodeToString_test_vectors:
  "EncodeToString (bytes_of ''f'') = ''Zg==''"
  "EncodeToString (bytes_of ''fo'') = ''Zm8=''"
  "EncodeToString (bytes_of ''foo'') = ''Zm9v''"
  "EncodeToString (bytes_of ''foobar'') = ''Zm9vYmFy''"
  "EncodeToString [0xfb, 0xff, 0xbf] = ''+/+/''"
  by (simp_all add: bytes_of_def b64char_def encodeStd_def)

lemma hex_lower_md5_of_no_bytes:
  "hex_lower [0xd4, 0x1d, 0x8c, 0xd9, 0x8f, 0x00, 0xb2, 0x04,
              0xe9, 0x80, 0x09, 0x98, 0xec, 0xf8, 0x42, 0x7e]
     = ''d41d8cd98f00b204e9800998ecf8427e''"
  by (simp add: hex_lower_def hex_byte_def hexdigit_def)

lemma decimal_examples: "decimal 503 = ''503''" "decimal 0 = ''0''" "decimal (- 12) = ''-12''"
  by (simp_all add: decimal_def hexdigit_def)

lemma Sprintf_sign_format:
  "Sprintf sign_format [ArgS m, ArgX d, ArgS ct, ArgS dt, ArgS p]
     = Join [m, hex_lower d, ct, dt, p] nl"
  by (simp add: sign_format_def nl_def format_verb_def)

lemma Sprintf_VWS: "Sprintf ''VWS %s:%s'' [ArgS a, ArgS s] = ''VWS '' @ a @ '':'' @ s"
  by (simp add: format_verb_def)

lemma Header_Get_Set_same: "Header_Get (Header_Set h k v) k = v"
  by (simp add: Header_Get_def Header_Set_def update_conv')

lemma Header_Get_Set_other: "k' \<noteq> k \<Longrightarrow> Header_Get (Header_Set h k v) k' = Header_Get h k'"
  by (simp add: Header_Get_def Header_Set_def update_conv')

lemma sign_canonical:
  "sign P secretKey r body =
     Inr (EncodeToString (hmac_sha1 P (bytes_of secretKey)
       (bytes_of (Join [Method r,
                        hex_lower (md5_Sum P (case body of None \<Rightarrow> [] | Some b \<Rightarrow> b)),
                        Header_Get (Header r) ''Content-Type'',
                        Header_Get (Header r) ''Date'',
                        Path (URL r)] nl))))"
  by (simp add: sign_def hash_New_def hash_Write_def Fprintf_def Sprintf_sign_format
      split: option.split)

lemma prepare_request:
  "prepare P secretKey accessKey req body =
     (req\<lparr>Header :=
        Header_Set (Header_Set (Header_Set (Header req) ''Date'' (time_Now P))
                      ''Content-Type'' ''application/json'')
          ''Authorization''
          (''VWS '' @ accessKey @ '':'' @ EncodeToString (hmac_sha1 P (bytes_of secretKey)
             (bytes_of (Join [Method req,
                              hex_lower (md5_Sum P (case body of None \<Rightarrow> [] | Some b \<Rightarrow> b)),
                              ''application/json'', time_Now P, Path (URL req)] nl))))\<rparr>,
      None)"
  by (simp add: prepare_def Let_def sign_canonical format_verb_def Header_Get_Set_same
      Header_Get_Set_other)

text \<open>
  C1. For every method, path, Content-Type value, Date value and body, the signature that
  \<open>sign\<close> returns is the standard padded base64 text of the HMAC-SHA1, keyed with the secret
  key, of the method, the lowercase hexadecimal MD5 digest of the body, the Content-Type value,
  the Date value and the URL path, joined in this order by single newlines; \<open>sign\<close> never
  fails. \<open>prepare\<close> never fails either: it sets \<^verbatim>\<open>Date\<close> to the clock's text and
  \<^verbatim>\<open>Content-Type\<close> to \<^verbatim>\<open>application/json\<close>, and sets \<^verbatim>\<open>Authorization\<close> to exactly
  \<^verbatim>\<open>VWS <access-id>:<signature>\<close>, where the signature is the one of the request with the two
  header values just set (and so the one \<open>sign\<close> gives for the request that is sent).
\<close>

theorem sign_is_base64_hmac_of_canonical_string:
  "sign P secretKey r body =
     Inr (EncodeToString (hmac_sha1 P (bytes_of secretKey)
       (bytes_of (Join [Method r,
                        hex_lower (md5_Sum P (case body of None \<Rightarrow> [] | Some b \<Rightarrow> b)),
                        Header_Get (Header r) ''Content-Type'',
                        Header_Get (Header r) ''Date'',
                        Path (URL r)] nl))))
   \<and> snd (prepare P secretKey accessKey req body) = None
   \<and> Header_Get (Header (fst (prepare P secretKey accessKey req body))) ''Date'' = time_Now P
   \<and> Header_Get (Header (fst (prepare P secretKey accessKey req body))) ''Content-Type''
       = ''application/json''
   \<and> Header_Get (Header (fst (prepare P secretKey accessKey req body))) ''Authorization''
       = ''VWS '' @ accessKey @ '':'' @
         EncodeToString (hmac_sha1 P (bytes_of secretKey)
           (bytes_of (Join [Method req,
                            hex_lower (md5_Sum P (case body of None \<Rightarrow> [] | Some b \<Rightarrow> b)),
                            ''application/json'', time_Now P, Path (URL req)] nl)))
   \<and> (\<exists>signature.
         sign P secretKey (fst (prepare P secretKey accessKey req body)) body = Inr signature
         \<and> Header_Get (Header (fst (prepare P secretKey accessKey req body))) ''Authorization''
             = ''VWS '' @ accessKey @ '':'' @ signature)"
  by (simp add: sign_canonical prepare_request Header_Get_Set_same Header_Get_Set_other)

text \<open>
  C8. For a request whose body is nil, the content hash on the second line of the canonical
  string is the lowercase hexadecimal MD5 digest of zero bytes: the hash step is neither left
  out nor an error, and a nil body signs as an empty one does.
\<close>

theorem sign_nil_body_hashes_zero_bytes:
  "sign P secretKey r None =
     Inr (EncodeToString (hmac_sha1 P (bytes_of secretKey)
       (bytes_of (Method r @ nl @ hex_lower (md5_Sum P []) @ nl
                  @ Header_Get (Header r) ''Content-Type'' @ nl
                  @ Header_Get (Header r) ''Date'' @ nl @ Path (URL r)))))
   \<and> sign P secretKey r None = sign P secretKey r (Some [])"
  by (simp add: sign_canonical)

section \<open>Properties of the client operations\<close>

lemma prepare_DefaultClient [simp]:
  "prepare (P\<lparr>DefaultClient := d\<rparr>) s a req body = prepare P s a req body"
  by (simp add: prepare_def sign_def)

lemma NewRequest_DefaultClient [simp]:
  "NewRequest (P\<lparr>DefaultClient := d\<rparr>) m u body = NewRequest P m u body"
  by (simp add: NewRequest_def)

lemma json_Marshal_DefaultClient [simp]:
  "json_Marshal (P\<lparr>DefaultClient := d\<rparr>) ms = json_Marshal P ms"
  by (simp add: json_Marshal_def)

lemma case_prepare:
  "(case prepare P s a req body of (r, None) \<Rightarrow> f r | (r, Some err) \<Rightarrow> g r err)
     = f (fst (prepare P s a req body))"
  by (simp add: prepare_request)

lemma status_blind_cfg:
  "GetTarget P (c\<lparr>cfg := (cfg c)\<lparr>Client := Some (with_status g t)\<rparr>\<rparr>) i
     = GetTarget P (c\<lparr>cfg := (cfg c)\<lparr>Client := Some t\<rparr>\<rparr>) i"
  "DeleteTarget P (c\<lparr>cfg := (cfg c)\<lparr>Client := Some (with_status g t)\<rparr>\<rparr>) d
     = DeleteTarget P (c\<lparr>cfg := (cfg c)\<lparr>Client := Some t\<rparr>\<rparr>) d"
  "TargetSummary P (c\<lparr>cfg := (cfg c)\<lparr>Client := Some (with_status g t)\<rparr>\<rparr>) s
     = TargetSummary P (c\<lparr>cfg := (cfg c)\<lparr>Client := Some t\<rparr>\<rparr>) s"
  "DatabaseSummary P (c\<lparr>cfg := (cfg c)\<lparr>Client := Some (with_status g t)\<rparr>\<rparr>)
     = DatabaseSummary P (c\<lparr>cfg := (cfg c)\<lparr>Client := Some t\<rparr>\<rparr>)"
  by (simp_all add: GetTarget_def DeleteTarget_def TargetSummary_def DatabaseSummary_def
      with_status_def split: option.split sum.split prod.split)

lemma status_blind_default:
  "PostTarget (P\<lparr>DefaultClient := with_status g (DefaultClient P)\<rparr>) c p = PostTarget P c p"
  "UpdateTarget (P\<lparr>DefaultClient := with_status g (DefaultClient P)\<rparr>) c u
     = UpdateTarget P c u"
  by (simp_all add: PostTarget_def UpdateTarget_def with_status_def
      split: option.split sum.split prod.split)

lemma checkError_cases:
  "500 \<le> StatusCode resp \<Longrightarrow> checkError P resp =
      Some (ErrorString (''the server encountered an internal error (Status = ''
         @ decimal (StatusCode resp) @ ''); please retry the request''))"
  "400 \<le> StatusCode resp \<Longrightarrow> StatusCode resp < 500 \<Longrightarrow> checkError P resp =
      (case Decode_APIError P (resp_Body resp) of
         Inl err \<Rightarrow> Some err | Inr e \<Rightarrow> Some (APIErr e))"
  "StatusCode resp < 400 \<Longrightarrow> checkError P resp = None"
  by (simp_all add: checkError_def isServerError_def isAPIError_def format_verb_def)

lemma empty_id:
  "GetTarget P c (Some \<lparr>get_TargetId = []\<rparr>)
     = (Fails (ErrorString ''TargetId must be provided''), [])"
  "UpdateTarget P c (Some (u\<lparr>upd_TargetId := []\<rparr>))
     = (Fails (ErrorString ''TargetId must be provided''), [])"
  "DeleteTarget P c (Some \<lparr>del_TargetId = []\<rparr>)
     = (Fails (ErrorString ''TargetId must be provided''), [])"
  "TargetSummary P c (Some \<lparr>sum_TargetId = []\<rparr>)
     = (Fails (ErrorString ''TargetId must be provided''), [])"
  by (simp_all add: GetTarget_def UpdateTarget_def DeleteTarget_def TargetSummary_def)

lemma client_blind:
  "PostTarget P (c\<lparr>cfg := (cfg c)\<lparr>Client := t\<rparr>\<rparr>) p = PostTarget P c p"
  "UpdateTarget P (c\<lparr>cfg := (cfg c)\<lparr>Client := t\<rparr>\<rparr>) u = UpdateTarget P c u"
  by (simp_all add: PostTarget_def UpdateTarget_def split: option.split sum.split prod.split)

lemma default_blind:
  "GetTarget (P\<lparr>DefaultClient := d\<rparr>) c i = GetTarget P c i"
  "DeleteTarget (P\<lparr>DefaultClient := d\<rparr>) c dl = DeleteTarget P c dl"
  "TargetSummary (P\<lparr>DefaultClient := d\<rparr>) c s = TargetSummary P c s"
  "DatabaseSummary (P\<lparr>DefaultClient := d\<rparr>) c = DatabaseSummary P c"
  by (simp_all add: GetTarget_def DeleteTarget_def TargetSummary_def DatabaseSummary_def
      split: option.split sum.split prod.split)

lemma via_tags:
  "list_all (\<lambda>x. fst x = http_DefaultClient) (snd (PostTarget P c p))"
  "list_all (\<lambda>x. fst x = http_DefaultClient) (snd (UpdateTarget P c u))"
  "list_all (\<lambda>x. fst x = cfg_Client) (snd (GetTarget P c i))"
  "list_all (\<lambda>x. fst x = cfg_Client) (snd (DeleteTarget P c dl))"
  "list_all (\<lambda>x. fst x = cfg_Client) (snd (TargetSummary P c s))"
  "list_all (\<lambda>x. fst x = cfg_Client) (snd (DatabaseSummary P c))"
  by (simp_all add: PostTarget_def UpdateTarget_def GetTarget_def DeleteTarget_def
      TargetSummary_def DatabaseSummary_def split: option.split sum.split prod.split)

lemma NewClient_has_transport:
  "NewClient P config = Inr c \<Longrightarrow> Client (cfg c) \<noteq> None"
  by (auto simp: NewClient_def split: if_splits)

lemma NewClient_nil_transport:
  "NewClient P \<lparr>SecretKey = s, AccessKey = a, Client = None\<rparr> = Inr c \<Longrightarrow>
     Client (cfg c) = Some (DefaultClient P)"
  by (auto simp: NewClient_def split: if_splits)

lemma bodies_differ:
  "unavailable_body \<noteq> unknown_target_body"
  "unavailable_body \<noteq> success_body"
  "unknown_target_body \<noteq> success_body"
  by (simp_all add: unavailable_body_def unknown_target_body_def success_body_def bytes_of_def)

lemma envelope_of_bodies:
  "envelope_of success_body = Some (''Success'', ''tx'')"
  "envelope_of unknown_target_body = Some (''UnknownTarget'', ''tx'')"
  "envelope_of unavailable_body = None"
  by (simp_all add: envelope_of_def bodies_differ)

lemma toy_fields:
  "url_Parse toy_platform s
     = Inr \<lparr>Scheme = ''https'', Host = ''vws.vuforia.com'', Path = drop 23 s, RawQuery = []\<rparr>"
  "DefaultClient toy_platform req = Inr \<lparr>StatusCode = 200, resp_Body = success_body\<rparr>"
  "json_Encode toy_platform ms = bytes_of (Join (map fst ms) '','')"
  "Client (cfg (client_over t)) = Some t"
  "not_found req = Inr \<lparr>StatusCode = 404, resp_Body = unknown_target_body\<rparr>"
  "unavailable req = Inr \<lparr>StatusCode = 503, resp_Body = unavailable_body\<rparr>"
  by (simp_all add: toy_platform_def vuforiaUrl_def client_over_def not_found_def
      unavailable_def)

lemma toy_decoders:
  "Decode_APIError toy_platform unknown_target_body
     = Inr \<lparr>ae_ResultCode = ''UnknownTarget'', ae_TransactionId = ''tx''\<rparr>"
  "Decode_APIError toy_platform unavailable_body = Inl syntax_error"
  "Decode_PostTargetResponse toy_platform success_body
     = Inr \<lparr>postr_TargetId = [], postr_TransactionId = ''tx'', postr_ResultCode = ''Success''\<rparr>"
  "Decode_PostTargetResponse toy_platform unknown_target_body
     = Inr \<lparr>postr_TargetId = [], postr_TransactionId = ''tx'',
            postr_ResultCode = ''UnknownTarget''\<rparr>"
  "Decode_UpdateTargetResponse toy_platform success_body
     = Inr \<lparr>updr_TransactionId = ''tx'', updr_ResultCode = ''Success''\<rparr>"
  "Decode_UpdateTargetResponse toy_platform unknown_target_body
     = Inr \<lparr>updr_TransactionId = ''tx'', updr_ResultCode = ''UnknownTarget''\<rparr>"
  "Decode_GetTargetResponse toy_platform unknown_target_body = Inr unknown_target_response"
  "Decode_GetTargetResponse toy_platform unavailable_body = Inl syntax_error"
  "Decode_DeleteTargetResponse toy_platform unknown_target_body
     = Inr \<lparr>delr_TransactionId = ''tx'', delr_ResultCode = ''UnknownTarget''\<rparr>"
  "Decode_TargetSummaryResponse toy_platform unknown_target_body = Inr unknown_summary"
  "Decode_DatabaseSummaryResponse toy_platform unknown_target_body = Inr unknown_database"
  by (simp_all add: toy_platform_def envelope_of_bodies unknown_target_response_def
      unknown_summary_def unknown_database_def)

lemma members_only_name:
  "members_UpdateTargetRequest (only_name tid name) = [(''name'', JString name)]"
  by (simp add: members_UpdateTargetRequest_def only_name_def omitempty_def)

lemma only_name_TargetId: "upd_TargetId (only_name tid name) = tid"
  by (simp add: only_name_def)

lemma float_finite_two: "float_finite 0x4000000000000000"
  by (simp add: float_finite_def drop_bit_eq_div take_bit_eq_mod)

lemma a_poster_marshal:
  "json_Marshal toy_platform (members_PostTargetRequest a_poster)
     = Inr (bytes_of ''name,width,image,active_flag'')"
  by (simp add: json_Marshal_def members_PostTargetRequest_def a_poster_def omitempty_def
      float_finite_two toy_fields)

lemma only_name_marshal:
  "json_Marshal toy_platform (members_UpdateTargetRequest (only_name tid name))
     = Inr (bytes_of ''name'')"
  by (simp add: json_Marshal_def members_only_name toy_fields)

lemma signed_request_DefaultClient [simp]:
  "signed_request (P\<lparr>DefaultClient := d\<rparr>) c m u body = signed_request P c m u body"
  by (simp add: signed_request_def)

lemma case_prepare_signed:
  "(case prepare P (SecretKey (cfg c)) (AccessKey (cfg c))
           \<lparr>Method = m, URL = u, Header = [], Body = body\<rparr> body of
      (r, None) \<Rightarrow> f r
    | (r, Some err) \<Rightarrow> g r err)
     = f (signed_request P c m u body)"
  by (simp add: case_prepare signed_request_def)

lemma PostTarget_exchange:
  "json_Marshal P (members_PostTargetRequest inp) = Inr body \<Longrightarrow>
   url_Parse P ''https://vws.vuforia.com/targets'' = Inr u \<Longrightarrow>
   PostTarget P c (Some inp) =
     ((case DefaultClient P (signed_request P c ''POST'' u (Some body)) of
         Inl err \<Rightarrow> Fails err
       | Inr resp \<Rightarrow>
           (case Decode_PostTargetResponse P (resp_Body resp) of
              Inl err \<Rightarrow> Fails err
            | Inr v \<Rightarrow> Gives v)),
      [(http_DefaultClient, signed_request P c ''POST'' u (Some body))])"
  by (simp add: PostTarget_def NewRequest_def format_verb_def vuforiaUrl_def
      case_prepare_signed split: sum.split)

lemma UpdateTarget_exchange:
  "upd_TargetId inp \<noteq> [] \<Longrightarrow>
   json_Marshal P (members_UpdateTargetRequest inp) = Inr body \<Longrightarrow>
   url_Parse P (''https://vws.vuforia.com/targets/'' @ upd_TargetId inp) = Inr u \<Longrightarrow>
   UpdateTarget P c (Some inp) =
     ((case DefaultClient P (signed_request P c ''PUT'' u (Some body)) of
         Inl err \<Rightarrow> Fails err
       | Inr resp \<Rightarrow>
           (case Decode_UpdateTargetResponse P (resp_Body resp) of
              Inl err \<Rightarrow> Fails err
            | Inr v \<Rightarrow> Gives v)),
      [(http_DefaultClient, signed_request P c ''PUT'' u (Some body))])"
  by (simp add: UpdateTarget_def NewRequest_def format_verb_def vuforiaUrl_def
      case_prepare_signed split: sum.split)

lemma GetTarget_exchange:
  "tid \<noteq> [] \<Longrightarrow>
   url_Parse P (''https://vws.vuforia.com/targets/'' @ tid) = Inr u \<Longrightarrow>
   Client (cfg c) = Some t \<Longrightarrow>
   GetTarget P c (Some \<lparr>get_TargetId = tid\<rparr>) =
     ((case t (signed_request P c ''GET'' u None) of
         Inl err \<Rightarrow> Fails err
       | Inr resp \<Rightarrow>
           (case Decode_GetTargetResponse P (resp_Body resp) of
              Inl err \<Rightarrow> Fails err
            | Inr v \<Rightarrow> Gives v)),
      [(cfg_Client, signed_request P c ''GET'' u None)])"
  by (simp add: GetTarget_def NewRequest_def format_verb_def vuforiaUrl_def
      case_prepare_signed split: sum.split)

lemma DeleteTarget_exchange:
  "tid \<noteq> [] \<Longrightarrow>
   url_Parse P (''https://vws.vuforia.com/targets/'' @ tid) = Inr u \<Longrightarrow>
   Client (cfg c) = Some t \<Longrightarrow>
   DeleteTarget P c (Some \<lparr>del_TargetId = tid\<rparr>) =
     ((case t (signed_request P c ''DELETE'' u None) of
         Inl err \<Rightarrow> Fails err
       | Inr resp \<Rightarrow>
           (case Decode_DeleteTargetResponse P (resp_Body resp) of
              Inl err \<Rightarrow> Fails err
            | Inr v \<Rightarrow> Gives v)),
      [(cfg_Client, signed_request P c ''DELETE'' u None)])"
  by (simp add: DeleteTarget_def NewRequest_def format_verb_def vuforiaUrl_def
      case_prepare_signed split: sum.split)

lemma TargetSummary_exchange:
  "tid \<noteq> [] \<Longrightarrow>
   url_Parse P (''https://vws.vuforia.com/summary/'' @ tid) = Inr u \<Longrightarrow>
   Client (cfg c) = Some t \<Longrightarrow>
   TargetSummary P c (Some \<lparr>sum_TargetId = tid\<rparr>) =
     ((case t (signed_request P c ''GET'' u None) of
         Inl err \<Rightarrow> Fails err
       | Inr resp \<Rightarrow>
           (case Decode_TargetSummaryResponse P (resp_Body resp) of
              Inl err \<Rightarrow> Fails err
            | Inr v \<Rightarrow> Gives v)),
      [(cfg_Client, signed_request P c ''GET'' u None)])"
  by (simp add: TargetSummary_def NewRequest_def format_verb_def vuforiaUrl_def
      case_prepare_signed split: sum.split)

lemma DatabaseSummary_exchange:
  "url_Parse P ''https://vws.vuforia.com/summary'' = Inr u \<Longrightarrow>
   Client (cfg c) = Some t \<Longrightarrow>
   DatabaseSummary P c =
     ((case t (signed_request P c ''GET'' u None) of
         Inl err \<Rightarrow> Fails err
       | Inr resp \<Rightarrow>
           (case Decode_DatabaseSummaryResponse P (resp_Body resp) of
              Inl err \<Rightarrow> Fails err
            | Inr v \<Rightarrow> Gives v)),
      [(cfg_Client, signed_request P c ''GET'' u None)])"
  by (simp add: DatabaseSummary_def NewRequest_def format_verb_def vuforiaUrl_def
      case_prepare_signed split: sum.split)

text \<open>
  C6. Called with an empty target id, \<open>GetTarget\<close>, \<open>UpdateTarget\<close>, \<open>DeleteTarget\<close> and
  \<open>TargetSummary\<close> return the local error \<^verbatim>\<open>TargetId must be provided\<close>, whatever the platform
  and the client are, and start no HTTP exchange: no request is built or sent. The error is an
  \<^verbatim>\<open>errors.New\<close> value, not an \<^verbatim>\<open>APIError\<close> reported by the server.
\<close>

theorem empty_target_id_fails_locally:
  "GetTarget P c (Some \<lparr>get_TargetId = []\<rparr>)
     = (Fails (ErrorString ''TargetId must be provided''), [])
   \<and> UpdateTarget P c (Some (upd\<lparr>upd_TargetId := []\<rparr>))
     = (Fails (ErrorString ''TargetId must be provided''), [])
   \<and> DeleteTarget P c (Some \<lparr>del_TargetId = []\<rparr>)
     = (Fails (ErrorString ''TargetId must be provided''), [])
   \<and> TargetSummary P c (Some \<lparr>sum_TargetId = []\<rparr>)
     = (Fails (ErrorString ''TargetId must be provided''), [])
   \<and> errors_As (ErrorString ''TargetId must be provided'') = None"
  by (simp add: empty_id)

theorem empty_target_id_fails_locally_witness:
  "GetTarget toy_platform (client_over not_found) (Some \<lparr>get_TargetId = []\<rparr>)
     = (Fails (ErrorString ''TargetId must be provided''), [])
   \<and> UpdateTarget toy_platform (client_over not_found) (Some (only_name [] ''poster''))
     = (Fails (ErrorString ''TargetId must be provided''), [])"
  using empty_target_id_fails_locally [where P = toy_platform and c = "client_over not_found"
      and upd = "only_name [] ''poster''"]
  by (simp add: only_name_def)

text \<open>
  C7. An update request in which only \<^verbatim>\<open>Name\<close> is set has the single JSON member
  \<^verbatim>\<open>name\<close>: width, image, active\_flag, application\_metadata and the target id are not members
  at all. Every request \<open>UpdateTarget\<close> sends for it carries the text of that one-member object
  as its body, and when the id is not empty and the URL parses, exactly one request is sent:
  a \<^verbatim>\<open>PUT\<close> to \<^verbatim>\<open>/targets/<id>\<close> with that body.
\<close>

theorem update_with_only_name_sends_only_name:
  "members_UpdateTargetRequest
     \<lparr>upd_TargetId = tid, upd_Name = Some name, upd_Width = None, upd_Image = None,
      upd_Active = None, upd_Metadata = None\<rparr>
     = [(''name'', JString name)]
   \<and> list_all (\<lambda>x. Body (snd x) = Some (json_Encode P [(''name'', JString name)]))
        (snd (UpdateTarget P c (Some (only_name tid name))))
   \<and> (tid \<noteq> [] \<and> url_Parse P (''https://vws.vuforia.com/targets/'' @ tid) = Inr u \<longrightarrow>
        map (\<lambda>x. (fst x, Method (snd x), URL (snd x), Body (snd x)))
          (snd (UpdateTarget P c (Some (only_name tid name))))
        = [(http_DefaultClient, ''PUT'', u, Some (json_Encode P [(''name'', JString name)]))])"
proof (intro conjI impI)
  show "members_UpdateTargetRequest
     \<lparr>upd_TargetId = tid, upd_Name = Some name, upd_Width = None, upd_Image = None,
      upd_Active = None, upd_Metadata = None\<rparr>
     = [(''name'', JString name)]"
    using members_only_name [of tid name] by (simp add: only_name_def)
next
  show "list_all (\<lambda>x. Body (snd x) = Some (json_Encode P [(''name'', JString name)]))
        (snd (UpdateTarget P c (Some (only_name tid name))))"
    by (simp add: UpdateTarget_def members_only_name json_Marshal_def NewRequest_def
        prepare_request split: sum.split)
next
  assume "tid \<noteq> [] \<and> url_Parse P (''https://vws.vuforia.com/targets/'' @ tid) = Inr u"
  then show "map (\<lambda>x. (fst x, Method (snd x), URL (snd x), Body (snd x)))
          (snd (UpdateTarget P c (Some (only_name tid name))))
        = [(http_DefaultClient, ''PUT'', u, Some (json_Encode P [(''name'', JString name)]))]"
    by (simp add: UpdateTarget_def members_only_name json_Marshal_def NewRequest_def
        prepare_request format_verb_def vuforiaUrl_def only_name_TargetId split: sum.split)
qed

theorem update_with_only_name_sends_only_name_witness:
  "map (\<lambda>x. (fst x, Method (snd x), URL (snd x), Body (snd x)))
     (snd (UpdateTarget toy_platform (client_over not_found) (Some (only_name ''t1'' ''poster''))))
   = [(http_DefaultClient, ''PUT'',
       \<lparr>Scheme = ''https'', Host = ''vws.vuforia.com'', Path = ''/targets/t1'', RawQuery = []\<rparr>,
       Some (bytes_of ''name''))]"
  using update_with_only_name_sends_only_name
     [where P = toy_platform and tid = "''t1''" and name = "''poster''"
      and c = "client_over not_found"
      and u = "\<lparr>Scheme = ''https'', Host = ''vws.vuforia.com'', Path = ''/targets/t1'',
                RawQuery = []\<rparr>"]
  by (simp add: toy_fields)



text \<open>
  C9. \<open>PostTarget\<close> and \<open>UpdateTarget\<close> do not depend on the transport in
  \<^verbatim>\<open>ClientConfig.Client\<close>: two clients that differ only in that field give the same result and
  the same exchanges. Once its request is built (the payload is written and the URL parses),
  each of the two hands that request to \<^verbatim>\<open>http.DefaultClient\<close>, exactly once, and its result
  is that client's answer: its error, or what the body of its response decodes to.
  \<open>GetTarget\<close>, \<open>DeleteTarget\<close>, \<open>TargetSummary\<close> and \<open>DatabaseSummary\<close> hand their request,
  exactly once, to the transport configured in the client, their result is the answer of that
  transport, and they do not depend on \<^verbatim>\<open>http.DefaultClient\<close>.
\<close>

theorem post_and_update_use_default_client:
  "PostTarget P (c\<lparr>cfg := (cfg c)\<lparr>Client := t\<rparr>\<rparr>) post = PostTarget P c post
   \<and> UpdateTarget P (c\<lparr>cfg := (cfg c)\<lparr>Client := t\<rparr>\<rparr>) upd = UpdateTarget P c upd
   \<and> list_all (\<lambda>x. fst x = http_DefaultClient) (snd (PostTarget P c post))
   \<and> list_all (\<lambda>x. fst x = http_DefaultClient) (snd (UpdateTarget P c upd))
   \<and> list_all (\<lambda>x. fst x = cfg_Client) (snd (GetTarget P c get))
   \<and> list_all (\<lambda>x. fst x = cfg_Client) (snd (DeleteTarget P c del))
   \<and> list_all (\<lambda>x. fst x = cfg_Client) (snd (TargetSummary P c summ))
   \<and> list_all (\<lambda>x. fst x = cfg_Client) (snd (DatabaseSummary P c))
   \<and> GetTarget (P\<lparr>DefaultClient := d\<rparr>) c get = GetTarget P c get
   \<and> DeleteTarget (P\<lparr>DefaultClient := d\<rparr>) c del = DeleteTarget P c del
   \<and> TargetSummary (P\<lparr>DefaultClient := d\<rparr>) c summ = TargetSummary P c summ
   \<and> DatabaseSummary (P\<lparr>DefaultClient := d\<rparr>) c = DatabaseSummary P c
   \<and> (json_Marshal P (members_PostTargetRequest new) = Inr body_post
        \<and> url_Parse P ''https://vws.vuforia.com/targets'' = Inr u_post \<longrightarrow>
        PostTarget P c (Some new) =
          ((case DefaultClient P (signed_request P c ''POST'' u_post (Some body_post)) of
              Inl err \<Rightarrow> Fails err
            | Inr resp \<Rightarrow>
                (case Decode_PostTargetResponse P (resp_Body resp) of
                   Inl err \<Rightarrow> Fails err
                 | Inr v \<Rightarrow> Gives v)),
           [(http_DefaultClient, signed_request P c ''POST'' u_post (Some body_post))]))
   \<and> (upd_TargetId change \<noteq> []
        \<and> json_Marshal P (members_UpdateTargetRequest change) = Inr body_upd
        \<and> url_Parse P (''https://vws.vuforia.com/targets/'' @ upd_TargetId change) = Inr u_upd \<longrightarrow>
        UpdateTarget P c (Some change) =
          ((case DefaultClient P (signed_request P c ''PUT'' u_upd (Some body_upd)) of
              Inl err \<Rightarrow> Fails err
            | Inr resp \<Rightarrow>
                (case Decode_UpdateTargetResponse P (resp_Body resp) of
                   Inl err \<Rightarrow> Fails err
                 | Inr v \<Rightarrow> Gives v)),
           [(http_DefaultClient, signed_request P c ''PUT'' u_upd (Some body_upd))]))
   \<and> (tid \<noteq> [] \<and> Client (cfg c) = Some configured
        \<and> url_Parse P (''https://vws.vuforia.com/targets/'' @ tid) = Inr u_get \<longrightarrow>
        GetTarget P c (Some \<lparr>get_TargetId = tid\<rparr>) =
          ((case configured (signed_request P c ''GET'' u_get None) of
              Inl err \<Rightarrow> Fails err
            | Inr resp \<Rightarrow>
                (case Decode_GetTargetResponse P (resp_Body resp) of
                   Inl err \<Rightarrow> Fails err
                 | Inr v \<Rightarrow> Gives v)),
           [(cfg_Client, signed_request P c ''GET'' u_get None)]))
   \<and> (tid \<noteq> [] \<and> Client (cfg c) = Some configured
        \<and> url_Parse P (''https://vws.vuforia.com/targets/'' @ tid) = Inr u_del \<longrightarrow>
        DeleteTarget P c (Some \<lparr>del_TargetId = tid\<rparr>) =
          ((case configured (signed_request P c ''DELETE'' u_del None) of
              Inl err \<Rightarrow> Fails err
            | Inr resp \<Rightarrow>
                (case Decode_DeleteTargetResponse P (resp_Body resp) of
                   Inl err \<Rightarrow> Fails err
                 | Inr v \<Rightarrow> Gives v)),
           [(cfg_Client, signed_request P c ''DELETE'' u_del None)]))
   \<and> (tid \<noteq> [] \<and> Client (cfg c) = Some configured
        \<and> url_Parse P (''https://vws.vuforia.com/summary/'' @ tid) = Inr u_sum \<longrightarrow>
        TargetSummary P c (Some \<lparr>sum_TargetId = tid\<rparr>) =
          ((case configured (signed_request P c ''GET'' u_sum None) of
              Inl err \<Rightarrow> Fails err
            | Inr resp \<Rightarrow>
                (case Decode_TargetSummaryResponse P (resp_Body resp) of
                   Inl err \<Rightarrow> Fails err
                 | Inr v \<Rightarrow> Gives v)),
           [(cfg_Client, signed_request P c ''GET'' u_sum None)]))
   \<and> (Client (cfg c) = Some configured
        \<and> url_Parse P ''https://vws.vuforia.com/summary'' = Inr u_db \<longrightarrow>
        DatabaseSummary P c =
          ((case configured (signed_request P c ''GET'' u_db None) of
              Inl err \<Rightarrow> Fails err
            | Inr resp \<Rightarrow>
                (case Decode_DatabaseSummaryResponse P (resp_Body resp) of
                   Inl err \<Rightarrow> Fails err
                 | Inr v \<Rightarrow> Gives v)),
           [(cfg_Client, signed_request P c ''GET'' u_db None)]))"
  by (simp add: client_blind via_tags default_blind PostTarget_exchange UpdateTarget_exchange
      GetTarget_exchange DeleteTarget_exchange TargetSummary_exchange DatabaseSummary_exchange)

theorem post_and_update_use_default_client_witness:
  "PostTarget toy_platform (client_over not_found) (Some a_poster)
     = (Gives \<lparr>postr_TargetId = [], postr_TransactionId = ''tx'', postr_ResultCode = ''Success''\<rparr>,
        [(http_DefaultClient,
          signed_request toy_platform (client_over not_found) ''POST''
            \<lparr>Scheme = ''https'', Host = ''vws.vuforia.com'', Path = ''/targets'', RawQuery = []\<rparr>
            (Some (bytes_of ''name,width,image,active_flag'')))])
   \<and> UpdateTarget toy_platform (client_over not_found) (Some (only_name ''t1'' ''poster''))
     = (Gives \<lparr>updr_TransactionId = ''tx'', updr_ResultCode = ''Success''\<rparr>,
        [(http_DefaultClient,
          signed_request toy_platform (client_over not_found) ''PUT''
            \<lparr>Scheme = ''https'', Host = ''vws.vuforia.com'', Path = ''/targets/t1'',
             RawQuery = []\<rparr>
            (Some (bytes_of ''name'')))])
   \<and> GetTarget toy_platform (client_over not_found) (Some \<lparr>get_TargetId = ''t1''\<rparr>)
     = (Gives unknown_target_response,
        [(cfg_Client,
          signed_request toy_platform (client_over not_found) ''GET''
            \<lparr>Scheme = ''https'', Host = ''vws.vuforia.com'', Path = ''/targets/t1'',
             RawQuery = []\<rparr> None)])
   \<and> DeleteTarget toy_platform (client_over not_found) (Some \<lparr>del_TargetId = ''t1''\<rparr>)
     = (Gives \<lparr>delr_TransactionId = ''tx'', delr_ResultCode = ''UnknownTarget''\<rparr>,
        [(cfg_Client,
          signed_request toy_platform (client_over not_found) ''DELETE''
            \<lparr>Scheme = ''https'', Host = ''vws.vuforia.com'', Path = ''/targets/t1'',
             RawQuery = []\<rparr> None)])
   \<and> TargetSummary toy_platform (client_over not_found) (Some \<lparr>sum_TargetId = ''t1''\<rparr>)
     = (Gives unknown_summary,
        [(cfg_Client,
          signed_request toy_platform (client_over not_found) ''GET''
            \<lparr>Scheme = ''https'', Host = ''vws.vuforia.com'', Path = ''/summary/t1'',
             RawQuery = []\<rparr> None)])
   \<and> DatabaseSummary toy_platform (client_over not_found)
     = (Gives unknown_database,
        [(cfg_Client,
          signed_request toy_platform (client_over not_found) ''GET''
            \<lparr>Scheme = ''https'', Host = ''vws.vuforia.com'', Path = ''/summary'',
             RawQuery = []\<rparr> None)])"
  using post_and_update_use_default_client
     [where P = toy_platform and c = "client_over not_found" and configured = not_found
        and new = a_poster and body_post = "bytes_of ''name,width,image,active_flag''"
        and u_post = "\<lparr>Scheme = ''https'', Host = ''vws.vuforia.com'', Path = ''/targets'',
                       RawQuery = []\<rparr>"
        and change = "only_name ''t1'' ''poster''" and body_upd = "bytes_of ''name''"
        and u_upd = "\<lparr>Scheme = ''https'', Host = ''vws.vuforia.com'', Path = ''/targets/t1'',
                      RawQuery = []\<rparr>"
        and tid = "''t1''"
        and u_get = "\<lparr>Scheme = ''https'', Host = ''vws.vuforia.com'', Path = ''/targets/t1'',
                      RawQuery = []\<rparr>"
        and u_del = "\<lparr>Scheme = ''https'', Host = ''vws.vuforia.com'', Path = ''/targets/t1'',
                      RawQuery = []\<rparr>"
        and u_sum = "\<lparr>Scheme = ''https'', Host = ''vws.vuforia.com'', Path = ''/summary/t1'',
                      RawQuery = []\<rparr>"
        and u_db = "\<lparr>Scheme = ''https'', Host = ''vws.vuforia.com'', Path = ''/summary'',
                     RawQuery = []\<rparr>"]
  by (simp add: toy_fields toy_decoders a_poster_marshal only_name_marshal only_name_TargetId)

text \<open>
  C2, as the specification states it, fails on the operations of the client: none of them
  looks at the status code. Over a transport that answers 404 with the body of an unknown
  target, \<open>GetTarget\<close> and \<open>DeleteTarget\<close> give the decoded success structure where
  \<open>checkError\<close> would give the \<^verbatim>\<open>APIError\<close>, and so does \<open>PostTarget\<close> when the default client
  answers so; over a transport that answers 503 with a body that is not JSON, \<open>GetTarget\<close>
  fails with the decoder's error where \<open>checkError\<close> would give the retry-later error.
\<close>

theorem operations_ignore_status_counterexample:
  "fst (GetTarget toy_platform (client_over not_found) (Some \<lparr>get_TargetId = ''t1''\<rparr>))
     = Gives unknown_target_response
   \<and> checkError toy_platform \<lparr>StatusCode = 404, resp_Body = unknown_target_body\<rparr>
     = Some (APIErr \<lparr>ae_ResultCode = ''UnknownTarget'', ae_TransactionId = ''tx''\<rparr>)
   \<and> fst (GetTarget toy_platform (client_over unavailable) (Some \<lparr>get_TargetId = ''t1''\<rparr>))
     = Fails syntax_error
   \<and> checkError toy_platform \<lparr>StatusCode = 503, resp_Body = unavailable_body\<rparr>
     = Some (ErrorString
         ''the server encountered an internal error (Status = 503); please retry the request'')
   \<and> fst (DeleteTarget toy_platform (client_over not_found) (Some \<lparr>del_TargetId = ''t1''\<rparr>))
     = Gives \<lparr>delr_TransactionId = ''tx'', delr_ResultCode = ''UnknownTarget''\<rparr>
   \<and> fst (PostTarget (toy_platform\<lparr>DefaultClient := not_found\<rparr>) (client_over unavailable)
            (Some a_poster))
     = Gives \<lparr>postr_TargetId = [], postr_TransactionId = ''tx'',
              postr_ResultCode = ''UnknownTarget''\<rparr>"
  by (simp add: GetTarget_def DeleteTarget_def PostTarget_def a_poster_marshal
      checkError_def isServerError_def isAPIError_def NewRequest_def
      case_prepare toy_fields toy_decoders format_verb_def decimal_def hexdigit_def)

text \<open>
  C2, amended. \<open>checkError\<close> classifies a response by its status: 500 or more gives the
  retry-later error with the status in its text, and the body is not decoded; 400 to 499 gives
  the \<^verbatim>\<open>APIError\<close> the body decodes to (result code and transaction id), or the decoder's
  error when the body does not decode; below 400 it gives nil. The six operations of the
  client do not call it. Once its request is built, each operation hands it to its transport,
  and when the transport answers with a response, of whatever status, the operation returns
  what the body of that response decodes to: the typed response, or the decoder's error.
  Replacing the status code of every response by any other changes neither the result of an
  operation nor its exchanges.
\<close>

theorem checkError_classifies_and_operations_ignore_status:
  "(500 \<le> StatusCode resp \<longrightarrow>
      checkError P resp =
        Some (ErrorString (''the server encountered an internal error (Status = ''
                @ decimal (StatusCode resp) @ ''); please retry the request'')))
   \<and> (400 \<le> StatusCode resp \<and> StatusCode resp < 500 \<longrightarrow>
      checkError P resp =
        (case Decode_APIError P (resp_Body resp) of
           Inl err \<Rightarrow> Some err
         | Inr e \<Rightarrow> Some (APIErr e)))
   \<and> (StatusCode resp < 400 \<longrightarrow> checkError P resp = None)
   \<and> PostTarget (P\<lparr>DefaultClient := with_status g (DefaultClient P)\<rparr>) c post
       = PostTarget P c post
   \<and> UpdateTarget (P\<lparr>DefaultClient := with_status g (DefaultClient P)\<rparr>) c upd
       = UpdateTarget P c upd
   \<and> GetTarget P (c\<lparr>cfg := (cfg c)\<lparr>Client := Some (with_status g t)\<rparr>\<rparr>) get
       = GetTarget P (c\<lparr>cfg := (cfg c)\<lparr>Client := Some t\<rparr>\<rparr>) get
   \<and> DeleteTarget P (c\<lparr>cfg := (cfg c)\<lparr>Client := Some (with_status g t)\<rparr>\<rparr>) del
       = DeleteTarget P (c\<lparr>cfg := (cfg c)\<lparr>Client := Some t\<rparr>\<rparr>) del
   \<and> TargetSummary P (c\<lparr>cfg := (cfg c)\<lparr>Client := Some (with_status g t)\<rparr>\<rparr>) summ
       = TargetSummary P (c\<lparr>cfg := (cfg c)\<lparr>Client := Some t\<rparr>\<rparr>) summ
   \<and> DatabaseSummary P (c\<lparr>cfg := (cfg c)\<lparr>Client := Some (with_status g t)\<rparr>\<rparr>)
       = DatabaseSummary P (c\<lparr>cfg := (cfg c)\<lparr>Client := Some t\<rparr>\<rparr>)
   \<and> (json_Marshal P (members_PostTargetRequest new) = Inr body_post
        \<and> url_Parse P ''https://vws.vuforia.com/targets'' = Inr u_post
        \<and> DefaultClient P (signed_request P c ''POST'' u_post (Some body_post))
            = Inr \<lparr>StatusCode = status, resp_Body = answer\<rparr> \<longrightarrow>
        PostTarget P c (Some new) =
          ((case Decode_PostTargetResponse P answer of
              Inl err \<Rightarrow> Fails err
            | Inr v \<Rightarrow> Gives v),
           [(http_DefaultClient, signed_request P c ''POST'' u_post (Some body_post))]))
   \<and> (upd_TargetId change \<noteq> []
        \<and> json_Marshal P (members_UpdateTargetRequest change) = Inr body_upd
        \<and> url_Parse P (''https://vws.vuforia.com/targets/'' @ upd_TargetId change) = Inr u_upd
        \<and> DefaultClient P (signed_request P c ''PUT'' u_upd (Some body_upd))
            = Inr \<lparr>StatusCode = status, resp_Body = answer\<rparr> \<longrightarrow>
        UpdateTarget P c (Some change) =
          ((case Decode_UpdateTargetResponse P answer of
              Inl err \<Rightarrow> Fails err
            | Inr v \<Rightarrow> Gives v),
           [(http_DefaultClient, signed_request P c ''PUT'' u_upd (Some body_upd))]))
   \<and> (tid \<noteq> [] \<and> Client (cfg c) = Some configured
        \<and> url_Parse P (''https://vws.vuforia.com/targets/'' @ tid) = Inr u_get
        \<and> configured (signed_request P c ''GET'' u_get None)
            = Inr \<lparr>StatusCode = status, resp_Body = answer\<rparr> \<longrightarrow>
        GetTarget P c (Some \<lparr>get_TargetId = tid\<rparr>) =
          ((case Decode_GetTargetResponse P answer of
              Inl err \<Rightarrow> Fails err
            | Inr v \<Rightarrow> Gives v),
           [(cfg_Client, signed_request P c ''GET'' u_get None)]))
   \<and> (tid \<noteq> [] \<and> Client (cfg c) = Some configured
        \<and> url_Parse P (''https://vws.vuforia.com/targets/'' @ tid) = Inr u_del
        \<and> configured (signed_request P c ''DELETE'' u_del None)
            = Inr \<lparr>StatusCode = status, resp_Body = answer\<rparr> \<longrightarrow>
        DeleteTarget P c (Some \<lparr>del_TargetId = tid\<rparr>) =
          ((case Decode_DeleteTargetResponse P answer of
              Inl err \<Rightarrow> Fails err
            | Inr v \<Rightarrow> Gives v),
           [(cfg_Client, signed_request P c ''DELETE'' u_del None)]))
   \<and> (tid \<noteq> [] \<and> Client (cfg c) = Some configured
        \<and> url_Parse P (''https://vws.vuforia.com/summary/'' @ tid) = Inr u_sum
        \<and> configured (signed_request P c ''GET'' u_sum None)
            = Inr \<lparr>StatusCode = status, resp_Body = answer\<rparr> \<longrightarrow>
        TargetSummary P c (Some \<lparr>sum_TargetId = tid\<rparr>) =
          ((case Decode_TargetSummaryResponse P answer of
              Inl err \<Rightarrow> Fails err
            | Inr v \<Rightarrow> Gives v),
           [(cfg_Client, signed_request P c ''GET'' u_sum None)]))
   \<and> (Client (cfg c) = Some configured
        \<and> url_Parse P ''https://vws.vuforia.com/summary'' = Inr u_db
        \<and> configured (signed_request P c ''GET'' u_db None)
            = Inr \<lparr>StatusCode = status, resp_Body = answer\<rparr> \<longrightarrow>
        DatabaseSummary P c =
          ((case Decode_DatabaseSummaryResponse P answer of
              Inl err \<Rightarrow> Fails err
            | Inr v \<Rightarrow> Gives v),
           [(cfg_Client, signed_request P c ''GET'' u_db None)]))"
  by (simp add: checkError_cases status_blind_cfg status_blind_default PostTarget_exchange
      UpdateTarget_exchange GetTarget_exchange DeleteTarget_exchange TargetSummary_exchange
      DatabaseSummary_exchange)

theorem checkError_classifies_and_operations_ignore_status_witness:
  "checkError toy_platform \<lparr>StatusCode = 503, resp_Body = unavailable_body\<rparr>
     = Some (ErrorString
         ''the server encountered an internal error (Status = 503); please retry the request'')
   \<and> checkError toy_platform \<lparr>StatusCode = 404, resp_Body = unknown_target_body\<rparr>
     = Some (APIErr \<lparr>ae_ResultCode = ''UnknownTarget'', ae_TransactionId = ''tx''\<rparr>)
   \<and> checkError toy_platform \<lparr>StatusCode = 400, resp_Body = unavailable_body\<rparr>
     = Some syntax_error
   \<and> checkError toy_platform \<lparr>StatusCode = 200, resp_Body = success_body\<rparr> = None
   \<and> fst (PostTarget (toy_platform\<lparr>DefaultClient := not_found\<rparr>) (client_over not_found)
            (Some a_poster))
     = Gives \<lparr>postr_TargetId = [], postr_TransactionId = ''tx'',
              postr_ResultCode = ''UnknownTarget''\<rparr>
   \<and> fst (UpdateTarget (toy_platform\<lparr>DefaultClient := not_found\<rparr>) (client_over not_found)
            (Some (only_name ''t1'' ''poster'')))
     = Gives \<lparr>updr_TransactionId = ''tx'', updr_ResultCode = ''UnknownTarget''\<rparr>
   \<and> fst (GetTarget (toy_platform\<lparr>DefaultClient := not_found\<rparr>) (client_over not_found)
            (Some \<lparr>get_TargetId = ''t1''\<rparr>))
     = Gives unknown_target_response
   \<and> fst (DeleteTarget (toy_platform\<lparr>DefaultClient := not_found\<rparr>) (client_over not_found)
            (Some \<lparr>del_TargetId = ''t1''\<rparr>))
     = Gives \<lparr>delr_TransactionId = ''tx'', delr_ResultCode = ''UnknownTarget''\<rparr>
   \<and> fst (TargetSummary (toy_platform\<lparr>DefaultClient := not_found\<rparr>) (client_over not_found)
            (Some \<lparr>sum_TargetId = ''t1''\<rparr>))
     = Gives unknown_summary
   \<and> fst (DatabaseSummary (toy_platform\<lparr>DefaultClient := not_found\<rparr>) (client_over not_found))
     = Gives unknown_database"
  using checkError_classifies_and_operations_ignore_status
      [where resp = "\<lparr>StatusCode = 503, resp_Body = unavailable_body\<rparr>" and P = toy_platform]
    checkError_classifies_and_operations_ignore_status
      [where resp = "\<lparr>StatusCode = 404, resp_Body = unknown_target_body\<rparr>"
        and P = toy_platform]
    checkError_classifies_and_operations_ignore_status
      [where resp = "\<lparr>StatusCode = 400, resp_Body = unavailable_body\<rparr>" and P = toy_platform]
    checkError_classifies_and_operations_ignore_status
      [where resp = "\<lparr>StatusCode = 200, resp_Body = success_body\<rparr>" and P = toy_platform]
    checkError_classifies_and_operations_ignore_status
     [where P = "toy_platform\<lparr>DefaultClient := not_found\<rparr>" and c = "client_over not_found"
        and configured = not_found and status = 404 and answer = unknown_target_body
        and new = a_poster and body_post = "bytes_of ''name,width,image,active_flag''"
        and u_post = "\<lparr>Scheme = ''https'', Host = ''vws.vuforia.com'', Path = ''/targets'',
                       RawQuery = []\<rparr>"
        and change = "only_name ''t1'' ''poster''" and body_upd = "bytes_of ''name''"
        and u_upd = "\<lparr>Scheme = ''https'', Host = ''vws.vuforia.com'', Path = ''/targets/t1'',
                      RawQuery = []\<rparr>"
        and tid = "''t1''"
        and u_get = "\<lparr>Scheme = ''https'', Host = ''vws.vuforia.com'', Path = ''/targets/t1'',
                      RawQuery = []\<rparr>"
        and u_del = "\<lparr>Scheme = ''https'', Host = ''vws.vuforia.com'', Path = ''/targets/t1'',
                      RawQuery = []\<rparr>"
        and u_sum = "\<lparr>Scheme = ''https'', Host = ''vws.vuforia.com'', Path = ''/summary/t1'',
                      RawQuery = []\<rparr>"
        and u_db = "\<lparr>Scheme = ''https'', Host = ''vws.vuforia.com'', Path = ''/summary'',
                     RawQuery = []\<rparr>"]
  by (simp add: toy_fields toy_decoders a_poster_marshal only_name_marshal only_name_TargetId
      decimal_def hexdigit_def)

section \<open>Properties of the processing waiter\<close>

lemma wait_loop_done:
  "done_first ctx now interval \<Longrightarrow>
     wait_loop S ctx target interval now script = (Returned (Some (ctx_Err ctx)), [])"
  by (cases script) simp_all

lemma wait_loop_error:
  assumes "\<not> done_first ctx now interval" and "reply_err r = Some err"
  shows "wait_loop S ctx target interval now (r # script) =
     (if (case errors_As err of None \<Rightarrow> False
          | Some ae \<Rightarrow> strings_EqualFold S (ae_ResultCode ae) ''RequestQuotaReached'')
      then and_then
             \<lparr>at = now + interval, waited = interval, asked = \<lparr>get_TargetId = target\<rparr>\<rparr>
             (wait_loop S ctx target extendedInterval (now + interval + latency r) script)
      else (Returned (Some err),
            [\<lparr>at = now + interval, waited = interval, asked = \<lparr>get_TargetId = target\<rparr>\<rparr>]))"
  using assms by (simp add: Let_def split: option.split)

lemma wait_loop_output:
  assumes "\<not> done_first ctx now interval" and "reply_err r = None"
    and "reply_output r = Some out"
  shows "wait_loop S ctx target interval now (r # script) =
     (if strings_ToLower S (getr_Status out) = ''failed'' \<or> strings_ToLower S (getr_Status out) = ''success''
      then (Returned None,
            [\<lparr>at = now + interval, waited = interval, asked = \<lparr>get_TargetId = target\<rparr>\<rparr>])
      else and_then
             \<lparr>at = now + interval, waited = interval, asked = \<lparr>get_TargetId = target\<rparr>\<rparr>
             (wait_loop S ctx target defaultInterval (now + interval + latency r) script))"
  using assms by (simp add: Let_def)

lemma wait_loop_first_poll:
  "snd (wait_loop S ctx target interval now script) = p # ps \<Longrightarrow>
     at p = now + interval \<and> waited p = interval \<and> asked p = \<lparr>get_TargetId = target\<rparr>"
  by (cases script) (auto simp: Let_def and_then_def split: if_splits option.splits)

lemma wait_loop_polls_not_early:
  "list_all (\<lambda>p. now + interval \<le> at p) (snd (wait_loop S ctx target interval now script))"
proof (induction script arbitrary: interval now)
  case Nil
  show ?case by simp
next
  case (Cons r script)
  have later: "list_all (\<lambda>p. now + interval \<le> at p)
      (snd (wait_loop S ctx target i (now + interval + latency r) script))" for i
    using Cons.IH [of "now + interval + latency r" i]
    by (auto simp: list_all_iff)
  show ?case
    using later by (auto simp: Let_def and_then_def split: option.splits)
qed


lemma wait_loop_nil_iff:
  "fst (wait_loop S ctx target interval now script) = Returned None \<longleftrightarrow>
     snd (wait_loop S ctx target interval now script) \<noteq> [] \<and>
     reply_err (script ! (length (snd (wait_loop S ctx target interval now script)) - 1)) = None \<and>
     (case reply_output
             (script ! (length (snd (wait_loop S ctx target interval now script)) - 1)) of
        None \<Rightarrow> False
      | Some out \<Rightarrow> strings_ToLower S (getr_Status out) = ''failed''
                    \<or> strings_ToLower S (getr_Status out) = ''success'')"
proof (induction script arbitrary: interval now)
  case Nil
  show ?case by simp
next
  case (Cons r script)
  show ?case
  proof (cases "done_first ctx now interval")
    case True
    then show ?thesis by simp
  next
    case False
    show ?thesis
    proof (cases "reply_err r")
      case (Some err)
      show ?thesis
      proof (cases "case errors_As err of None \<Rightarrow> False
          | Some ae \<Rightarrow> strings_EqualFold S (ae_ResultCode ae) ''RequestQuotaReached''")
        case True
        then show ?thesis
          using Cons.IH [of extendedInterval "now + interval + latency r"] Some False
          apply (simp add: wait_loop_error and_then_def del: wait_loop.simps)
          apply (cases "snd (wait_loop S ctx target extendedInterval
                               (now + interval + latency r) script)")
           apply simp_all
          done
      next
        case other: False
        then show ?thesis using Some False
          by (simp add: wait_loop_error del: wait_loop.simps)
      qed
    next
      case None
      show ?thesis
      proof (cases "reply_output r")
        case nil: None
        then show ?thesis using None False by simp
      next
        case (Some out)
        then show ?thesis
          using Cons.IH [of defaultInterval "now + interval + latency r"] None False
          apply (simp add: wait_loop_output and_then_def del: wait_loop.simps)
          apply (cases "snd (wait_loop S ctx target defaultInterval
                               (now + interval + latency r) script)")
           apply auto
          done
      qed
    qed
  qed
qed

lemma ascii_ToLower_examples:
  "strings_ToLower ascii_strings ''success'' = ''success''"
  "strings_ToLower ascii_strings ''processing'' = ''processing''"
  "strings_ToLower ascii_strings ''Failed'' = ''failed''"
  by (simp_all add: ascii_strings_def ascii_lower_def)

lemma ascii_EqualFold_examples:
  "strings_EqualFold ascii_strings ''requestQUOTAreached'' ''RequestQuotaReached''"
  "\<not> strings_EqualFold ascii_strings ''UnknownTarget'' ''RequestQuotaReached''"
  by (simp_all add: ascii_strings_def ascii_lower_def)

lemmas run_simps = WaitUntilProcessed_def done_first_def and_then_def
  defaultInterval_def extendedInterval_def Second_def
  a_response_def replies_def fails_with_def background_def cancelled_at_def
  asking_def ascii_ToLower_examples ascii_EqualFold_examples

text \<open>
  C3. At any turn of the loop in which the timer fires and \<open>GetTarget\<close> fails: if the error is
  (or wraps) an \<^verbatim>\<open>APIError\<close> whose result code \<^verbatim>\<open>strings.EqualFold\<close> finds equal to
  \<^verbatim>\<open>RequestQuotaReached\<close>, the loop goes on with an interval of 30 seconds, so the next poll, if
  there is one, comes 30 seconds after this call returned; with any other error the function
  returns that error at once and polls no more, whatever replies would have followed. This
  holds for every pair of library functions, Go's own among them.
\<close>

theorem quota_error_widens_interval_other_errors_return:
  "\<not> done_first ctx now interval \<and> reply_err r = Some err \<longrightarrow>
     ((case errors_As err of None \<Rightarrow> False
       | Some ae \<Rightarrow> strings_EqualFold S (ae_ResultCode ae) ''RequestQuotaReached'') \<longrightarrow>
        wait_loop S ctx target interval now (r # script) =
          and_then \<lparr>at = now + interval, waited = interval, asked = \<lparr>get_TargetId = target\<rparr>\<rparr>
            (wait_loop S ctx target (30 * Second) (now + interval + latency r) script)
        \<and> (\<forall>q qs. snd (wait_loop S ctx target (30 * Second) (now + interval + latency r) script)
                     = q # qs \<longrightarrow>
               waited q = 30 * Second \<and> at q = now + interval + latency r + 30 * Second))
     \<and> (\<not> (case errors_As err of None \<Rightarrow> False
            | Some ae \<Rightarrow> strings_EqualFold S (ae_ResultCode ae) ''RequestQuotaReached'') \<longrightarrow>
        wait_loop S ctx target interval now (r # script) =
          (Returned (Some err),
           [\<lparr>at = now + interval, waited = interval, asked = \<lparr>get_TargetId = target\<rparr>\<rparr>]))"
  using wait_loop_first_poll [of S ctx target "30 * Second" "now + interval + latency r" script]
  by (auto simp: wait_loop_error extendedInterval_def simp del: wait_loop.simps)

theorem quota_error_widens_interval_other_errors_return_witness:
  "wait_loop ascii_strings background ''t1'' (5 * Second) 0
      [fails_with 7 (Wrapped ''get target''
         (APIErr \<lparr>ae_ResultCode = ''requestQUOTAreached'', ae_TransactionId = ''tx''\<rparr>)),
       replies 9 ''success'']
     = (Returned None, [asking 5000000000 5000000000, asking 35000000007 30000000000])
   \<and> wait_loop ascii_strings background ''t1'' (5 * Second) 0
      [fails_with 7 (APIErr \<lparr>ae_ResultCode = ''UnknownTarget'', ae_TransactionId = ''tx''\<rparr>),
       replies 9 ''success'']
     = (Returned (Some (APIErr \<lparr>ae_ResultCode = ''UnknownTarget'', ae_TransactionId = ''tx''\<rparr>)),
        [asking 5000000000 5000000000])"
  using quota_error_widens_interval_other_errors_return
     [where S = ascii_strings and ctx = background and now = 0 and interval = "5 * Second"
        and r = "fails_with 7 (Wrapped ''get target''
          (APIErr \<lparr>ae_ResultCode = ''requestQUOTAreached'', ae_TransactionId = ''tx''\<rparr>))"
        and err = "Wrapped ''get target''
          (APIErr \<lparr>ae_ResultCode = ''requestQUOTAreached'', ae_TransactionId = ''tx''\<rparr>)"
        and target = "''t1''" and script = "[replies 9 ''success'']"]
    quota_error_widens_interval_other_errors_return
     [where S = ascii_strings and ctx = background and now = 0 and interval = "5 * Second"
        and r = "fails_with 7
          (APIErr \<lparr>ae_ResultCode = ''UnknownTarget'', ae_TransactionId = ''tx''\<rparr>)"
        and err = "APIErr \<lparr>ae_ResultCode = ''UnknownTarget'', ae_TransactionId = ''tx''\<rparr>"
        and target = "''t1''" and script = "[replies 9 ''success'']"]
  by (simp add: run_simps)

text \<open>
  C4. At any turn in which the timer fires and \<open>GetTarget\<close> succeeds, a status that
  \<^verbatim>\<open>strings.ToLower\<close> turns into \<^verbatim>\<open>success\<close> or \<^verbatim>\<open>failed\<close> makes the function return nil; any
  other status, \<^verbatim>\<open>processing\<close> included, makes the loop go on with the interval back at 5
  seconds. Over a whole run the function returns nil exactly when its last poll was answered
  without error by such a terminal status. With a context that is never done and three
  replies whose statuses lower to processing, processing and success (as these words
  themselves do), it returns nil after exactly three polls, each one 5 seconds after the entry
  or after the previous call returned. This holds for every pair of library functions.
\<close>

theorem returns_nil_exactly_on_terminal_status:
  "(\<not> done_first ctx now interval \<and> reply_err r = None \<and> reply_output r = Some out \<longrightarrow>
      wait_loop S ctx target interval now (r # script) =
        (if strings_ToLower S (getr_Status out) = ''success'' \<or> strings_ToLower S (getr_Status out) = ''failed''
         then (Returned None,
               [\<lparr>at = now + interval, waited = interval, asked = \<lparr>get_TargetId = target\<rparr>\<rparr>])
         else and_then
                \<lparr>at = now + interval, waited = interval, asked = \<lparr>get_TargetId = target\<rparr>\<rparr>
                (wait_loop S ctx target (5 * Second) (now + interval + latency r) script)))
   \<and> (fst (WaitUntilProcessed S ctx entry script target) = Returned None \<longleftrightarrow>
        snd (WaitUntilProcessed S ctx entry script target) \<noteq> []
        \<and> reply_err (script ! (length (snd (WaitUntilProcessed S ctx entry script target)) - 1))
            = None
        \<and> (case reply_output
                   (script ! (length (snd (WaitUntilProcessed S ctx entry script target)) - 1)) of
              None \<Rightarrow> False
            | Some out \<Rightarrow> strings_ToLower S (getr_Status out) = ''success''
                          \<or> strings_ToLower S (getr_Status out) = ''failed''))
   \<and> (done_at ctx = None \<and> strings_ToLower S (getr_Status out1) = ''processing''
        \<and> strings_ToLower S (getr_Status out2) = ''processing''
        \<and> strings_ToLower S (getr_Status out3) = ''success'' \<longrightarrow>
        WaitUntilProcessed S ctx entry
          [\<lparr>latency = l1, reply_output = Some out1, reply_err = None\<rparr>,
           \<lparr>latency = l2, reply_output = Some out2, reply_err = None\<rparr>,
           \<lparr>latency = l3, reply_output = Some out3, reply_err = None\<rparr>] target
        = (Returned None,
           [\<lparr>at = entry + 5 * Second, waited = 5 * Second,
             asked = \<lparr>get_TargetId = target\<rparr>\<rparr>,
            \<lparr>at = entry + 5 * Second + l1 + 5 * Second, waited = 5 * Second,
             asked = \<lparr>get_TargetId = target\<rparr>\<rparr>,
            \<lparr>at = entry + 5 * Second + l1 + 5 * Second + l2 + 5 * Second, waited = 5 * Second,
             asked = \<lparr>get_TargetId = target\<rparr>\<rparr>]))"
proof (intro conjI impI)
  assume "\<not> done_first ctx now interval \<and> reply_err r = None \<and> reply_output r = Some out"
  then show "wait_loop S ctx target interval now (r # script) =
        (if strings_ToLower S (getr_Status out) = ''success'' \<or> strings_ToLower S (getr_Status out) = ''failed''
         then (Returned None,
               [\<lparr>at = now + interval, waited = interval, asked = \<lparr>get_TargetId = target\<rparr>\<rparr>])
         else and_then
                \<lparr>at = now + interval, waited = interval, asked = \<lparr>get_TargetId = target\<rparr>\<rparr>
                (wait_loop S ctx target (5 * Second) (now + interval + latency r) script))"
    by (auto simp: wait_loop_output defaultInterval_def simp del: wait_loop.simps)
next
  show "fst (WaitUntilProcessed S ctx entry script target) = Returned None \<longleftrightarrow>
        snd (WaitUntilProcessed S ctx entry script target) \<noteq> []
        \<and> reply_err (script ! (length (snd (WaitUntilProcessed S ctx entry script target)) - 1))
            = None
        \<and> (case reply_output
                   (script ! (length (snd (WaitUntilProcessed S ctx entry script target)) - 1)) of
              None \<Rightarrow> False
            | Some out \<Rightarrow> strings_ToLower S (getr_Status out) = ''success''
                          \<or> strings_ToLower S (getr_Status out) = ''failed'')"
    unfolding WaitUntilProcessed_def
    using wait_loop_nil_iff [of S ctx target defaultInterval entry script]
    by (auto split: option.splits)
next
  assume "done_at ctx = None \<and> strings_ToLower S (getr_Status out1) = ''processing''
        \<and> strings_ToLower S (getr_Status out2) = ''processing''
        \<and> strings_ToLower S (getr_Status out3) = ''success''"
  then show "WaitUntilProcessed S ctx entry
          [\<lparr>latency = l1, reply_output = Some out1, reply_err = None\<rparr>,
           \<lparr>latency = l2, reply_output = Some out2, reply_err = None\<rparr>,
           \<lparr>latency = l3, reply_output = Some out3, reply_err = None\<rparr>] target
        = (Returned None,
           [\<lparr>at = entry + 5 * Second, waited = 5 * Second,
             asked = \<lparr>get_TargetId = target\<rparr>\<rparr>,
            \<lparr>at = entry + 5 * Second + l1 + 5 * Second, waited = 5 * Second,
             asked = \<lparr>get_TargetId = target\<rparr>\<rparr>,
            \<lparr>at = entry + 5 * Second + l1 + 5 * Second + l2 + 5 * Second, waited = 5 * Second,
             asked = \<lparr>get_TargetId = target\<rparr>\<rparr>])"
    by (simp add: WaitUntilProcessed_def done_first_def and_then_def defaultInterval_def
        Let_def)
qed

theorem returns_nil_exactly_on_terminal_status_witness:
  "WaitUntilProcessed ascii_strings background 0
     [replies 1 ''processing'', replies 2 ''processing'', replies 3 ''success''] ''t1''
   = (Returned None,
      [asking 5000000000 5000000000, asking 10000000001 5000000000,
       asking 15000000003 5000000000])
   \<and> wait_loop ascii_strings background ''t1'' (30 * Second) 4 [replies 1 ''Failed'', replies 2 ''success'']
      = (Returned None, [asking 30000000004 30000000000])"
  using returns_nil_exactly_on_terminal_status
     [where S = ascii_strings and ctx = background and now = 4 and interval = "30 * Second"
      and r = "replies 1 ''Failed''" and out = "a_response ''Failed''" and target = "''t1''"
      and script = "[replies 2 ''success'']" and entry = 0
      and ?out1.0 = "a_response ''processing''" and ?out2.0 = "a_response ''processing''"
      and ?out3.0 = "a_response ''success''" and ?l1.0 = 1 and ?l2.0 = 2 and ?l3.0 = 3]
  by (simp add: run_simps)




text \<open>
  C10. No call of \<open>GetTarget\<close> starts earlier than 5 seconds after the function was entered:
  the first poll, if there is one, comes exactly 5 seconds after entry, and every poll comes at
  or after that instant. If the context is done at entry, the function returns the error of
  the context and has polled zero times.
\<close>

theorem first_poll_after_default_interval:
  "list_all (\<lambda>p. entry + 5 * Second \<le> at p) (snd (WaitUntilProcessed S ctx entry script target))
   \<and> (\<forall>p ps. snd (WaitUntilProcessed S ctx entry script target) = p # ps \<longrightarrow>
         at p = entry + 5 * Second \<and> waited p = 5 * Second)
   \<and> (\<forall>d. done_at ctx = Some d \<and> d \<le> entry \<longrightarrow>
         WaitUntilProcessed S ctx entry script target = (Returned (Some (ctx_Err ctx)), []))"
  using wait_loop_polls_not_early [of entry defaultInterval S ctx target script]
    wait_loop_first_poll [of S ctx target defaultInterval entry script]
    wait_loop_done [of ctx entry defaultInterval S target script]
  by (auto simp: WaitUntilProcessed_def defaultInterval_def done_first_def Second_def)

theorem first_poll_after_default_interval_witness:
  "snd (WaitUntilProcessed ascii_strings background 3
     [replies 1 ''processing'', replies 2 ''success''] ''t1'')
     = [asking 5000000003 5000000000, asking 10000000004 5000000000]
   \<and> WaitUntilProcessed ascii_strings (cancelled_at 3) 3 [replies 1 ''success''] ''t1''
     = (Returned (Some Canceled), [])"
  using first_poll_after_default_interval
     [where S = ascii_strings and entry = 3 and ctx = background and target = "''t1''"
      and script = "[replies 1 ''processing'', replies 2 ''success'']"]
    first_poll_after_default_interval
     [where S = ascii_strings and entry = 3 and ctx = "cancelled_at 3" and target = "''t1''"
      and script = "[replies 1 ''success'']"]
  by (simp add: run_simps)

end
